theory Spec2Isabelle
  imports Main "HOL-Library.AList"
begin

section \<open>Python values used by \<^verbatim>\<open>main.py\<close>\<close>

text \<open>
  A Python \<^verbatim>\<open>dict\<close> keeps its keys in insertion order; it is modelled as an association
  list in that order. \<^verbatim>\<open>d.get(k)\<close> is \<open>dict_get\<close>, \<^verbatim>\<open>k in d\<close> is \<open>dict_contains\<close>,
  \<^verbatim>\<open>d[k] = v\<close> is \<open>dict_set\<close> (the value is replaced in place when the key is present and
  appended otherwise) and \<^verbatim>\<open>len(d)\<close> is \<open>dict_len\<close>.
\<close>

type_synonym ('k, 'v) dict = "('k \<times> 'v) list"

definition dict_get :: "('k, 'v) dict \<Rightarrow> 'k \<Rightarrow> 'v option" where
  "dict_get d k = map_of d k"

definition dict_contains :: "'k \<Rightarrow> ('k, 'v) dict \<Rightarrow> bool" where
  "dict_contains k d = (map_of d k \<noteq> None)"

definition dict_set :: "('k, 'v) dict \<Rightarrow> 'k \<Rightarrow> 'v \<Rightarrow> ('k, 'v) dict" where
  "dict_set d k v = AList.update k v d"

definition dict_len :: "('k, 'v) dict \<Rightarrow> nat" where
  "dict_len d = length d"

text \<open>The exceptions the repository code can raise. \<open>OutsideModel\<close> is not a Python
  exception: it marks an input on which Python goes on with a value that the typed
  records below cannot hold (see \<open>load_from_file\<close>).\<close>

datatype error = KeyError string | AttributeError | TypeError | ValueError | OutsideModel

text \<open>A statement that may raise, followed by the rest of the function: the exception
  leaves the function, a value goes on.\<close>

definition and_then :: "error + 'a \<Rightarrow> ('a \<Rightarrow> error + 'b) \<Rightarrow> error + 'b" where
  "and_then m f = (case m of Inl e \<Rightarrow> Inl e | Inr x \<Rightarrow> f x)"

text \<open>\<^verbatim>\<open>str(n)\<close> for a natural number, as used by the f-string \<^verbatim>\<open>f"C{len(self.commits)}"\<close>.\<close>

definition digit_char :: "nat \<Rightarrow> char" where
  "digit_char n = ''0123456789'' ! (n mod 10)"

fun str_nat :: "nat \<Rightarrow> string" where
  "str_nat n = (if n < 10 then [digit_char n] else str_nat (n div 10) @ [digit_char n])"

declare str_nat.simps [simp del]

text \<open>\<^verbatim>\<open>"%0wd" % n\<close>: decimal, padded with zeros on the left to at least \<open>w\<close> characters.\<close>

definition zpad :: "nat \<Rightarrow> nat \<Rightarrow> string" where
  "zpad w n = replicate (w - length (str_nat n)) (CHR ''0'') @ str_nat n"

text \<open>The character \<^verbatim>\<open>'\<close>, as a string.\<close>

abbreviation sq :: string where
  "sq \<equiv> [CHR 0x27]"

text \<open>\<^verbatim>\<open>sep.join(xs)\<close>.\<close>

fun py_join :: "string \<Rightarrow> string list \<Rightarrow> string" where
  "py_join sep [] = []"
| "py_join sep [x] = x"
| "py_join sep (x # y # ys) = x @ sep @ py_join sep (y # ys)"

subsection \<open>\<^verbatim>\<open>datetime\<close>\<close>

text \<open>
  A \<^verbatim>\<open>datetime.datetime\<close> is its seven fields and its \<^verbatim>\<open>tzinfo\<close>: \<open>None\<close> for a naive
  datetime, as \<^verbatim>\<open>datetime.datetime.now()\<close> returns it, or the offset from UTC of a
  \<^verbatim>\<open>datetime.timezone\<close>, in microseconds. The clock is not part of the repository: every
  function that reads it takes the value read as an argument \<open>now\<close>.
\<close>

record datetime =
  year :: nat
  month :: nat
  day :: nat
  hour :: nat
  minute :: nat
  second :: nat
  microsecond :: nat
  tzinfo :: "int option"

text \<open>\<^verbatim>\<open>t.strftime('%Y-%m-%d %H:%M:%S')\<close>, as the C library of the platform formats it
  (glibc): \<^verbatim>\<open>%Y\<close> is the year in decimal without padding (\<^verbatim>\<open>999\<close> for the year 999), the
  other fields are padded with zeros to two digits.\<close>

definition strftime :: "datetime \<Rightarrow> string" where
  "strftime t =
     str_nat (year t) @ ''-'' @ zpad 2 (month t) @ ''-'' @ zpad 2 (day t) @ '' '' @
     zpad 2 (hour t) @ '':'' @ zpad 2 (minute t) @ '':'' @ zpad 2 (second t)"

text \<open>The offset that \<^verbatim>\<open>isoformat\<close> appends for a datetime with a \<^verbatim>\<open>tzinfo\<close>: sign, hours
  and minutes, then the seconds when seconds or microseconds are not 0, then the
  microseconds when they are not 0.\<close>

definition format_offset :: "int \<Rightarrow> string" where
  "format_offset off =
     (let a = nat \<bar>off\<bar>; us = a mod 1000000; s = a div 1000000
      in (if off < 0 then ''-'' else ''+'') @ zpad 2 (s div 3600) @ '':'' @
         zpad 2 (s div 60 mod 60) @
         (if s mod 60 \<noteq> 0 \<or> us \<noteq> 0 then '':'' @ zpad 2 (s mod 60) else []) @
         (if us \<noteq> 0 then ''.'' @ zpad 6 us else []))"

text \<open>\<^verbatim>\<open>t.isoformat()\<close>: the fraction is written only when the microsecond is not 0.\<close>

definition isoformat :: "datetime \<Rightarrow> string" where
  "isoformat t =
     zpad 4 (year t) @ ''-'' @ zpad 2 (month t) @ ''-'' @ zpad 2 (day t) @ ''T'' @
     zpad 2 (hour t) @ '':'' @ zpad 2 (minute t) @ '':'' @ zpad 2 (second t) @
     (if microsecond t = 0 then [] else ''.'' @ zpad 6 (microsecond t)) @
     (case tzinfo t of None \<Rightarrow> [] | Some off \<Rightarrow> format_offset off)"

text \<open>The calendar of the library: \<^verbatim>\<open>is_leap\<close>, \<^verbatim>\<open>days_in_month\<close>,
  \<^verbatim>\<open>days_before_month\<close>, \<^verbatim>\<open>days_before_year\<close>, \<^verbatim>\<open>ymd_to_ord\<close> (the day 0001-01-01 is
  day 1), \<^verbatim>\<open>iso_week1_monday\<close> and \<^verbatim>\<open>ord_to_ymd\<close>, for years from 1 on and months from
  1 to 12.\<close>

definition is_leap :: "nat \<Rightarrow> bool" where
  "is_leap y = (y mod 4 = 0 \<and> (y mod 100 \<noteq> 0 \<or> y mod 400 = 0))"

definition days_in_month :: "nat \<Rightarrow> nat \<Rightarrow> nat" where
  "days_in_month y m =
     (if m = 2 then (if is_leap y then 29 else 28)
      else if m = 4 \<or> m = 6 \<or> m = 9 \<or> m = 11 then 30 else 31)"

definition days_before_month_table :: "nat list" where
  "days_before_month_table = [0, 0, 31, 59, 90, 120, 151, 181, 212, 243, 273, 304, 334]"

definition days_before_month :: "nat \<Rightarrow> nat \<Rightarrow> nat" where
  "days_before_month y m =
     days_before_month_table ! m + (if m > 2 \<and> is_leap y then 1 else 0)"

definition days_before_year :: "nat \<Rightarrow> nat" where
  "days_before_year y =
     (y - 1) * 365 + (y - 1) div 4 - (y - 1) div 100 + (y - 1) div 400"

definition ymd_to_ord :: "nat \<Rightarrow> nat \<Rightarrow> nat \<Rightarrow> nat" where
  "ymd_to_ord y m d = days_before_year y + days_before_month y m + d"

definition iso_week1_monday :: "nat \<Rightarrow> nat" where
  "iso_week1_monday y =
     (let first_day = ymd_to_ord y 1 1; first_weekday = (first_day + 6) mod 7
      in (if first_weekday > 3 then first_day + 7 else first_day) - first_weekday)"

definition ord_to_ymd :: "nat \<Rightarrow> nat \<times> nat \<times> nat" where
  "ord_to_ymd ordinal =
     (let n0 = ordinal - 1;
          n400 = n0 div 146097; na = n0 mod 146097;
          n100 = na div 36524; nb = na mod 36524;
          n4 = nb div 1461; nc = nb mod 1461;
          n1 = nc div 365; n = nc mod 365;
          y = n400 * 400 + 1 + n100 * 100 + n4 * 4 + n1
      in if n1 = 4 \<or> n100 = 4 then (y - 1, 12, 31)
         else
           (let leapyear = (n1 = 3 \<and> (n4 \<noteq> 24 \<or> n100 = 3));
                m = (n + 50) div 32;
                preceding = days_before_month_table ! m +
                            (if m > 2 \<and> leapyear then 1 else 0)
            in if preceding > n
               then (y, m - 1, n - (preceding - days_in_month y (m - 1)) + 1)
               else (y, m, n - preceding + 1)))"

text \<open>\<^verbatim>\<open>iso_to_ymd\<close>: the date of a day of an ISO week, when week and day are in range. In
  the year 0 every such day lies before 0001-01-01: the C function computes a month
  below 1 from it, which the constructor of \<^verbatim>\<open>datetime\<close> refuses, and the result here is
  \<open>None\<close>.\<close>

definition iso_to_ymd :: "nat \<Rightarrow> nat \<Rightarrow> nat \<Rightarrow> (nat \<times> nat \<times> nat) option" where
  "iso_to_ymd iso_year iso_week iso_day =
     (let first_weekday = (ymd_to_ord iso_year 1 1 + 6) mod 7
      in if iso_year = 0 then None
         else if (iso_week = 0 \<or> iso_week \<ge> 53) \<and>
                 \<not> (iso_week = 53 \<and>
                    (first_weekday = 3 \<or> (first_weekday = 2 \<and> is_leap iso_year)))
         then None
         else if iso_day = 0 \<or> iso_day \<ge> 8 then None
         else Some (ord_to_ymd (iso_week1_monday iso_year + (iso_week - 1) * 7 + iso_day - 1)))"

text \<open>
  \<^verbatim>\<open>datetime.fromisoformat\<close>, as the library of Python 3.11 implements it in C
  (\<^verbatim>\<open>_datetimemodule.c\<close>). The parser reads the UTF-8 encoding of the \<^verbatim>\<open>str\<close>, and a string
  of the model is the list of these bytes (a \<^verbatim>\<open>str\<close> with a lone surrogate has no encoding
  and is not a value of the model). \<open>byte_at s i\<close> is the byte at position \<open>i\<close>, and the
  terminating 0 from the end on. \<open>parse_digits s p n\<close> reads exactly \<open>n\<close> decimal digits
  at \<open>p\<close> and returns their value and the position after them.
\<close>

definition byte_at :: "string \<Rightarrow> nat \<Rightarrow> nat" where
  "byte_at s i = (if i < length s then of_char (s ! i) else 0)"

definition is_digit :: "char \<Rightarrow> bool" where
  "is_digit c = (c \<in> set ''0123456789'')"

definition digit_val :: "char \<Rightarrow> nat" where
  "digit_val c = (of_char c :: nat) - 48"

definition parse_digits :: "string \<Rightarrow> nat \<Rightarrow> nat \<Rightarrow> (nat \<times> nat) option" where
  "parse_digits s p n =
     (let ds = take n (drop p s)
      in if length ds = n \<and> list_all is_digit ds
         then Some (foldl (\<lambda>a c. 10 * a + digit_val c) 0 ds, p + n) else None)"

text \<open>The position after the digits that start at \<open>p\<close>.\<close>

definition skip_digits :: "string \<Rightarrow> nat \<Rightarrow> nat" where
  "skip_digits s p = p + length (takeWhile is_digit (drop p s))"

text \<open>\<^verbatim>\<open>_find_isoformat_datetime_separator\<close>, for a string of \<open>len\<close> bytes, \<open>len\<close> at least
  7: where the date ends. \<open>None\<close> is the result -1, which the C function gives for the
  nine bytes of a week date that ends with its second dash (\<^verbatim>\<open>2024-W20-\<close>).\<close>

definition find_isoformat_datetime_separator :: "string \<Rightarrow> nat \<Rightarrow> nat option" where
  "find_isoformat_datetime_separator s len =
     (if len = 7 then Some 7
      else if byte_at s 4 = 45 then
        (if byte_at s 5 = 87 then
           (if len < 8 then None
            else if len > 8 \<and> byte_at s 8 = 45 then
              (if len = 9 then None
               else if len > 10 \<and> 48 \<le> byte_at s 10 \<and> byte_at s 10 \<le> 57 then Some 8
               else Some 10)
            else Some 8)
         else Some 10)
      else if byte_at s 4 = 87 then
        (let idx = min len (skip_digits s 7)
         in if idx < 9 then Some idx else if idx mod 2 = 0 then Some 7 else Some 8)
      else Some 8)"

text \<open>\<^verbatim>\<open>parse_isoformat_date\<close>: a calendar date, with or without dashes, or a week date;
  \<open>len\<close> is the end of the date found above. \<open>None\<close> is every failure.\<close>

definition parse_isoformat_date :: "string \<Rightarrow> nat \<Rightarrow> (nat \<times> nat \<times> nat) option" where
  "parse_isoformat_date s len =
     (case parse_digits s 0 4 of
        None \<Rightarrow> None
      | Some (y, p0) \<Rightarrow>
          (let uses_separator = (byte_at s p0 = 45);
               p = (if uses_separator then p0 + 1 else p0)
           in if byte_at s p = 87 then
                (case parse_digits s (p + 1) 2 of
                   None \<Rightarrow> None
                 | Some (iso_week, pw) \<Rightarrow>
                     if pw < len then
                       (if uses_separator \<and> byte_at s pw \<noteq> 45 then None
                        else
                          (case parse_digits s (if uses_separator then pw + 1 else pw) 1 of
                             None \<Rightarrow> None
                           | Some (iso_day, pd) \<Rightarrow> iso_to_ymd y iso_week iso_day))
                     else iso_to_ymd y iso_week 1)
              else
                (case parse_digits s p 2 of
                   None \<Rightarrow> None
                 | Some (m, pm) \<Rightarrow>
                     if uses_separator \<and> byte_at s pm \<noteq> 45 then None
                     else
                       (case parse_digits s (if uses_separator then pm + 1 else pm) 2 of
                          None \<Rightarrow> None
                        | Some (d, pd) \<Rightarrow> Some (y, m, d)))))"

text \<open>
  \<^verbatim>\<open>parse_hh_mm_ss_ff\<close> between \<open>p\<close> and \<open>p_end\<close>. The \<^verbatim>\<open>for\<close> loop reads up to three
  pairs of digits; it returns (\<open>Return\<close>) when the text up to \<open>p_end\<close> is used up, goes
  on to the fraction (\<open>Fraction\<close>) at a point or a comma and after the third pair, and
  fails on anything else. The flag of \<open>Return\<close> and of \<open>hms\<close> below is the result 1 of the
  C function: the text did not end where the time ended.
\<close>

datatype hms_loop_result = Fail | Return bool "nat list" | Fraction nat "nat list"

fun hms_loop ::
  "string \<Rightarrow> nat \<Rightarrow> nat \<Rightarrow> nat \<Rightarrow> bool \<Rightarrow> nat list \<Rightarrow> hms_loop_result" where
  "hms_loop s p_end 0 p has_separator vals = Fraction p vals"
| "hms_loop s p_end (Suc left) p has_separator vals =
     (case parse_digits s p 2 of
        None \<Rightarrow> Fail
      | Some (v, p1) \<Rightarrow>
          (let c = byte_at s p1;
               has_sep = (if left = 2 then c = 58 else has_separator)
           in if p1 + 1 \<ge> p_end then Return (c \<noteq> 0) (vals @ [v])
              else if has_sep \<and> c = 58 then hms_loop s p_end left (p1 + 1) has_sep (vals @ [v])
              else if c = 46 \<or> c = 44 then Fraction (p1 + 1) (vals @ [v])
              else if \<not> has_sep then hms_loop s p_end left p1 has_sep (vals @ [v])
              else Fail))"

definition parse_hh_mm_ss_ff :: "string \<Rightarrow> nat \<Rightarrow> nat \<Rightarrow> (bool \<times> nat list) option" where
  "parse_hh_mm_ss_ff s p p_end =
     (case hms_loop s p_end 3 p True [] of
        Fail \<Rightarrow> None
      | Return unread vals \<Rightarrow> Some (unread, take 4 (vals @ [0, 0, 0, 0]))
      | Fraction pf vals \<Rightarrow>
          (let to_parse = min 6 (p_end - pf)
           in case parse_digits s pf to_parse of
                None \<Rightarrow> None
              | Some (us, pu) \<Rightarrow>
                  Some (byte_at s (skip_digits s pu) \<noteq> 0,
                        take 3 (vals @ [0, 0, 0]) @ [us * 10 ^ (6 - to_parse)])))"

text \<open>
  \<^verbatim>\<open>parse_isoformat_time\<close> on the \<open>dtlen\<close> bytes from \<open>p\<close>: the time up to the first
  \<^verbatim>\<open>Z\<close>, \<^verbatim>\<open>+\<close> or \<^verbatim>\<open>-\<close>, then the offset. The result is the four time fields and the
  offset read, in seconds and microseconds.
\<close>

definition is_tz_byte :: "char \<Rightarrow> bool" where
  "is_tz_byte c = (c = CHR ''Z'' \<or> c = CHR ''+'' \<or> c = CHR ''-'')"

definition parse_isoformat_time ::
  "string \<Rightarrow> nat \<Rightarrow> nat \<Rightarrow> (nat list \<times> (int \<times> int) option) option" where
  "parse_isoformat_time s p dtlen =
     (let p_end = p + dtlen;
          tzinfo_pos = (if dtlen = 0 then p + 1
                        else p + length (takeWhile (\<lambda>c. \<not> is_tz_byte c) (take dtlen (drop p s))))
      in case parse_hh_mm_ss_ff s p tzinfo_pos of
           None \<Rightarrow> None
         | Some (unread, comps) \<Rightarrow>
             if tzinfo_pos = p_end then (if unread then None else Some (comps, None))
             else if byte_at s tzinfo_pos = 90 then
               (if byte_at s (tzinfo_pos + 1) \<noteq> 0 then None else Some (comps, Some (0, 0)))
             else
               (case parse_hh_mm_ss_ff s (tzinfo_pos + 1) p_end of
                  None \<Rightarrow> None
                | Some (unread', tz) \<Rightarrow>
                    if unread' then None
                    else
                      (let tzsign = (if byte_at s tzinfo_pos = 45 then - 1 else 1)
                       in Some (comps,
                                Some (tzsign * int (tz ! 0 * 3600 + tz ! 1 * 60 + tz ! 2),
                                      tzsign * int (tz ! 3))))))"

text \<open>The number of bytes of the UTF-8 character that starts with the byte \<open>c\<close>: the
  character between date and time may be any.\<close>

definition utf8_width :: "nat \<Rightarrow> nat" where
  "utf8_width c =
     (if c < 128 then 1 else if c div 16 = 14 then 3 else if c div 16 = 15 then 4 else 2)"

text \<open>The range checks of the constructors of \<^verbatim>\<open>datetime\<close> and \<^verbatim>\<open>timezone\<close>.\<close>

definition valid_datetime :: "datetime \<Rightarrow> bool" where
  "valid_datetime t =
     (1 \<le> year t \<and> year t \<le> 9999 \<and> 1 \<le> month t \<and> month t \<le> 12 \<and>
      1 \<le> day t \<and> day t \<le> days_in_month (year t) (month t) \<and>
      hour t < 24 \<and> minute t < 60 \<and> second t < 60 \<and> microsecond t < 1000000 \<and>
      (case tzinfo t of None \<Rightarrow> True
       | Some off \<Rightarrow> - 86400000000 < off \<and> off < 86400000000))"

text \<open>\<^verbatim>\<open>datetime.fromisoformat(s)\<close> for a string \<open>s\<close>. A string of fewer than 7 characters
  is refused; one of fewer than 7 characters and at least 7 bytes holds no date, so the
  test on the bytes refuses the same strings. After the result -1 above the C function
  still reads a time, from the start of the string, and finds none in a string of that
  shape. An offset of 0 seconds is UTC, whatever its microseconds. Every failure is a
  \<^verbatim>\<open>ValueError\<close>.\<close>

definition fromisoformat :: "string \<Rightarrow> error + datetime" where
  "fromisoformat s =
     (let len = length s in
      if len < 7 then Inl ValueError
      else
        (case find_isoformat_datetime_separator s len of
           None \<Rightarrow> Inl ValueError
         | Some separator_location \<Rightarrow>
             (case parse_isoformat_date s separator_location of
                None \<Rightarrow> Inl ValueError
              | Some (y, m, d) \<Rightarrow>
                  (let p = separator_location + utf8_width (byte_at s separator_location);
                       time = (if len > separator_location
                               then parse_isoformat_time s p (len - p)
                               else Some ([0, 0, 0, 0], None))
                   in case time of
                        None \<Rightarrow> Inl ValueError
                      | Some (comps, tz) \<Rightarrow>
                          (let t = \<lparr>year = y, month = m, day = d, hour = comps ! 0,
                                    minute = comps ! 1, second = comps ! 2,
                                    microsecond = comps ! 3,
                                    tzinfo = (case tz of None \<Rightarrow> None
                                              | Some (off, us) \<Rightarrow>
                                                  if off = 0 then Some 0
                                                  else Some (off * 1000000 + us))\<rparr>
                           in if valid_datetime t then Inr t else Inl ValueError)))))"

section \<open>The data model\<close>

text \<open>\<^verbatim>\<open>class GitCommit\<close>. The attribute \<^verbatim>\<open>id\<close> is the field \<open>commit_id\<close>.\<close>

record GitCommit =
  commit_id :: string
  message :: string
  parent :: "string option"
  second_parent :: "string option"
  timestamp :: datetime

text \<open>\<^verbatim>\<open>GitCommit.__init__(commit_id, message, parent=None, second_parent=None)\<close>, with
  the clock value it reads.\<close>

definition GitCommit_init ::
  "string \<Rightarrow> string \<Rightarrow> string option \<Rightarrow> string option \<Rightarrow> datetime \<Rightarrow> GitCommit" where
  "GitCommit_init cid msg p sp now =
     \<lparr>commit_id = cid, message = msg, parent = p, second_parent = sp, timestamp = now\<rparr>"

text \<open>\<^verbatim>\<open>class GitBranch\<close>.\<close>

record GitBranch =
  name :: string
  head :: string
  color :: string

definition colors :: "string list" where
  "colors = [''#2196f3'', ''#4caf50'', ''#9c27b0'', ''#ff9800'', ''#e91e63'', ''#607d8b'']"

text \<open>\<^verbatim>\<open>_generate_color\<close>: \<^verbatim>\<open>random.choice(colors)\<close>, the random index being the
  argument \<open>pick\<close>.\<close>

definition generate_color :: "nat \<Rightarrow> string" where
  "generate_color pick = colors ! (pick mod length colors)"

text \<open>\<^verbatim>\<open>GitBranch.__init__(name, head, color=None)\<close>: \<^verbatim>\<open>color or self._generate_color()\<close>
  keeps a non-empty colour and draws one otherwise.\<close>

definition GitBranch_init :: "string \<Rightarrow> string \<Rightarrow> string option \<Rightarrow> nat \<Rightarrow> GitBranch" where
  "GitBranch_init nm h col pick =
     \<lparr>name = nm, head = h,
      color = (case col of None \<Rightarrow> generate_color pick
               | Some c \<Rightarrow> if c = [] then generate_color pick else c)\<rparr>"

text \<open>
  \<^verbatim>\<open>class GitRepository\<close>. \<^verbatim>\<open>current_branch\<close> is \<^verbatim>\<open>None\<close> only inside the constructor,
  before \<^verbatim>\<open>_initialize_repo\<close> sets it; in a repository it is a string. Each branch name owns a \<^verbatim>\<open>GitBranch\<close> object of its own
  (\<^verbatim>\<open>create_branch\<close> and \<^verbatim>\<open>from_dict\<close> always build a new one), so the assignment
  \<^verbatim>\<open>branch.head = commit_id\<close> through one name is the update of that name's entry.
\<close>

record GitRepository =
  commits :: "(string, GitCommit) dict"
  branches :: "(string, GitBranch) dict"
  current_branch :: string

section \<open>The operations\<close>

text \<open>\<^verbatim>\<open>_initialize_repo\<close>, on the two dictionaries of \<^verbatim>\<open>self\<close>.\<close>

definition initialize_repo ::
  "datetime \<Rightarrow> nat \<Rightarrow> (string, GitCommit) dict \<Rightarrow> (string, GitBranch) dict \<Rightarrow> GitRepository" where
  "initialize_repo now pick cs bs =
     (let initial_commit = GitCommit_init ''C0'' ''Initial commit'' None None now;
          master_branch = GitBranch_init ''master'' (commit_id initial_commit) None pick
      in \<lparr>commits = dict_set cs (commit_id initial_commit) initial_commit,
          branches = dict_set bs (name master_branch) master_branch,
          current_branch = ''master''\<rparr>)"

text \<open>\<^verbatim>\<open>GitRepository.__init__\<close>: empty dictionaries, then \<^verbatim>\<open>_initialize_repo\<close>.\<close>

definition GitRepository_init :: "datetime \<Rightarrow> nat \<Rightarrow> GitRepository" where
  "GitRepository_init now pick = initialize_repo now pick [] []"

text \<open>\<^verbatim>\<open>create_commit\<close>: the result pair and the repository afterwards.\<close>

definition create_commit ::
  "datetime \<Rightarrow> string \<Rightarrow> GitRepository \<Rightarrow> (bool \<times> string) \<times> GitRepository" where
  "create_commit now msg r =
     (case dict_get (branches r) (current_branch r) of
        None \<Rightarrow>
          ((False, ''Error: Current branch '' @ sq @ current_branch r @ sq @ '' not found''), r)
      | Some branch \<Rightarrow>
          (let parent_id = head branch;
               cid = ''C'' @ str_nat (dict_len (commits r));
               new_commit = GitCommit_init cid msg (Some parent_id) None now
           in ((True, ''Created commit '' @ cid @ '': '' @ msg),
               r\<lparr>commits := dict_set (commits r) cid new_commit,
                 branches := dict_set (branches r) (current_branch r)
                               (branch\<lparr>head := cid\<rparr>)\<rparr>)))"

text \<open>\<^verbatim>\<open>create_branch\<close>. \<^verbatim>\<open>self.branches[self.current_branch]\<close> raises \<^verbatim>\<open>KeyError\<close> when the
  current branch is not a key.\<close>

definition create_branch ::
  "nat \<Rightarrow> string \<Rightarrow> GitRepository \<Rightarrow> error + ((bool \<times> string) \<times> GitRepository)" where
  "create_branch pick nm r =
     (if dict_contains nm (branches r) then
        Inr ((False, ''Error: Branch '' @ sq @ nm @ sq @ '' already exists''), r)
      else
        (case dict_get (branches r) (current_branch r) of
           None \<Rightarrow> Inl (KeyError (current_branch r))
         | Some cur \<Rightarrow>
             (let current_head = head cur;
                  new_branch = GitBranch_init nm current_head None pick
              in Inr ((True, ''Created branch '' @ sq @ nm @ sq @ '' at commit '' @ current_head),
                      r\<lparr>branches := dict_set (branches r) nm new_branch\<rparr>))))"

text \<open>\<^verbatim>\<open>checkout_branch\<close>.\<close>

definition checkout_branch :: "string \<Rightarrow> GitRepository \<Rightarrow> (bool \<times> string) \<times> GitRepository" where
  "checkout_branch nm r =
     (if \<not> dict_contains nm (branches r) then
        ((False, ''Error: Branch '' @ sq @ nm @ sq @ '' not found''), r)
      else ((True, ''Switched to branch '' @ sq @ nm @ sq), r\<lparr>current_branch := nm\<rparr>))"

text \<open>\<^verbatim>\<open>merge_branches\<close>. Both branches are looked up with \<^verbatim>\<open>get\<close>; only the source is
  tested, so \<^verbatim>\<open>target_branch.head\<close> raises \<^verbatim>\<open>AttributeError\<close> when the current branch is
  not a key.\<close>

definition merge_branches ::
  "datetime \<Rightarrow> string \<Rightarrow> GitRepository \<Rightarrow> error + ((bool \<times> string) \<times> GitRepository)" where
  "merge_branches now source_branch_name r =
     (let target = dict_get (branches r) (current_branch r);
          source = dict_get (branches r) source_branch_name
      in case source of
           None \<Rightarrow>
             Inr ((False, ''Error: Branch '' @ sq @ source_branch_name @ sq @ '' not found''), r)
         | Some source_branch \<Rightarrow>
             (case target of
                None \<Rightarrow> Inl AttributeError
              | Some target_branch \<Rightarrow>
                  if head target_branch = head source_branch then
                    Inr ((True, ''Already up to date. Nothing to merge.''), r)
                  else
                    (let cid = ''C'' @ str_nat (dict_len (commits r));
                         msg = ''Merge branch '' @ sq @ source_branch_name @ sq @ '' into '' @
                               current_branch r;
                         merge_commit = GitCommit_init cid msg (Some (head target_branch))
                                          (Some (head source_branch)) now
                     in Inr ((True, ''Merged '' @ sq @ source_branch_name @ sq @ '' into '' @ sq @
                                    current_branch r @ sq),
                             r\<lparr>commits := dict_set (commits r) cid merge_commit,
                               branches := dict_set (branches r) (current_branch r)
                                             (target_branch\<lparr>head := cid\<rparr>)\<rparr>))))"

subsection \<open>The log\<close>

text \<open>The four lines \<^verbatim>\<open>get_commit_log\<close> appends for one commit.\<close>

definition log_entry :: "GitCommit \<Rightarrow> string list" where
  "log_entry commit =
     [''Commit: '' @ commit_id commit, ''Message: '' @ message commit,
      ''Date: '' @ strftime (timestamp commit), []]"

text \<open>
  The \<^verbatim>\<open>while current_commit_id:\<close> loop. The loop variable is \<^verbatim>\<open>None\<close> or a string, and
  both \<^verbatim>\<open>None\<close> and the empty string end the loop; an id that is not a key of \<^verbatim>\<open>commits\<close>
  ends it through \<^verbatim>\<open>break\<close>. Nothing bounds the number of rounds, so the loop is a partial
  function: \<open>None\<close> is a run that never leaves the loop.
\<close>

partial_function (option) log_loop ::
  "(string, GitCommit) dict \<Rightarrow> string option \<Rightarrow> string list \<Rightarrow> string list option" where
  "log_loop cs current_commit_id result =
     (case current_commit_id of
        None \<Rightarrow> Some result
      | Some c \<Rightarrow>
          if c = [] then Some result
          else (case dict_get cs c of
                  None \<Rightarrow> Some result
                | Some commit \<Rightarrow> log_loop cs (parent commit) (result @ log_entry commit)))"

declare log_loop.simps [code]

text \<open>\<^verbatim>\<open>get_commit_log\<close>: the text returned, \<open>None\<close> when the loop never ends. The method
  assigns nothing, so the repository is the same afterwards.\<close>

definition get_commit_log :: "GitRepository \<Rightarrow> string option" where
  "get_commit_log r =
     (case dict_get (branches r) (current_branch r) of
        None \<Rightarrow> Some ''Error: Current branch not found''
      | Some branch \<Rightarrow>
          (case log_loop (commits r) (Some (head branch)) [] of
             None \<Rightarrow> None
           | Some result \<Rightarrow>
               Some (if result \<noteq> [] then py_join [CHR 0x0A] result else ''No commits yet'')))"

subsection \<open>Persistence\<close>

text \<open>
  The value \<^verbatim>\<open>json.dump\<close> writes and \<^verbatim>\<open>json.load\<close> reads back. A file is modelled by the
  value it holds: \<^verbatim>\<open>json.load\<close> of what \<^verbatim>\<open>json.dump\<close> wrote is the value dumped, for the
  dictionaries of strings and \<^verbatim>\<open>None\<close> that \<^verbatim>\<open>save_to_file\<close> builds.
\<close>

datatype json =
  JNull | JBool bool | JNum int | JStr string | JArr "json list" | JObj "(string \<times> json) list"

text \<open>\<^verbatim>\<open>data[k]\<close> for a string \<open>k\<close>: \<^verbatim>\<open>KeyError\<close> on a dictionary without the key,
  \<^verbatim>\<open>TypeError\<close> on any other value.\<close>

definition subscript :: "json \<Rightarrow> string \<Rightarrow> error + json" where
  "subscript data k =
     (case data of
        JObj kvs \<Rightarrow> (case dict_get kvs k of None \<Rightarrow> Inl (KeyError k) | Some v \<Rightarrow> Inr v)
      | _ \<Rightarrow> Inl TypeError)"

text \<open>\<^verbatim>\<open>data.get(k)\<close> on a dictionary.\<close>

definition json_get :: "json \<Rightarrow> string \<Rightarrow> json" where
  "json_get data k =
     (case data of
        JObj kvs \<Rightarrow> (case dict_get kvs k of None \<Rightarrow> JNull | Some v \<Rightarrow> v)
      | _ \<Rightarrow> JNull)"

text \<open>\<^verbatim>\<open>data.items()\<close>: only a dictionary has the method.\<close>

definition items :: "json \<Rightarrow> error + (string \<times> json) list" where
  "items data = (case data of JObj kvs \<Rightarrow> Inr kvs | _ \<Rightarrow> Inl AttributeError)"

definition as_str :: "json \<Rightarrow> string option" where
  "as_str v = (case v of JStr s \<Rightarrow> Some s | _ \<Rightarrow> None)"

definition as_opt_str :: "json \<Rightarrow> string option option" where
  "as_opt_str v = (case v of JNull \<Rightarrow> Some None | JStr s \<Rightarrow> Some (Some s) | _ \<Rightarrow> None)"

definition opt_json :: "string option \<Rightarrow> json" where
  "opt_json v = (case v of None \<Rightarrow> JNull | Some s \<Rightarrow> JStr s)"

text \<open>Python's truth value of a JSON value, negated.\<close>

definition py_falsy :: "json \<Rightarrow> bool" where
  "py_falsy v =
     (case v of JNull \<Rightarrow> True | JBool b \<Rightarrow> \<not> b | JNum n \<Rightarrow> n = 0 | JStr s \<Rightarrow> s = []
      | JArr xs \<Rightarrow> xs = [] | JObj kvs \<Rightarrow> kvs = [])"

text \<open>\<^verbatim>\<open>GitCommit.to_dict\<close> and \<^verbatim>\<open>GitBranch.to_dict\<close>.\<close>

definition GitCommit_to_dict :: "GitCommit \<Rightarrow> json" where
  "GitCommit_to_dict c =
     JObj [(''id'', JStr (commit_id c)), (''message'', JStr (message c)),
           (''parent'', opt_json (parent c)), (''second_parent'', opt_json (second_parent c)),
           (''timestamp'', JStr (isoformat (timestamp c)))]"

definition GitBranch_to_dict :: "GitBranch \<Rightarrow> json" where
  "GitBranch_to_dict b =
     JObj [(''name'', JStr (name b)), (''head'', JStr (head b)), (''color'', JStr (color b))]"

text \<open>
  \<^verbatim>\<open>GitCommit.from_dict\<close>: the four arguments are read in order, then the timestamp is
  read and parsed (\<^verbatim>\<open>fromisoformat\<close> raises \<^verbatim>\<open>TypeError\<close> on a value that is not a string).
  Python stores whatever values the document holds; the record holds strings and \<^verbatim>\<open>None\<close>,
  and a document with another value in one of these fields is outside the model.
\<close>

definition GitCommit_from_dict :: "json \<Rightarrow> error + GitCommit" where
  "GitCommit_from_dict data =
     and_then (subscript data ''id'') (\<lambda>i.
     and_then (subscript data ''message'') (\<lambda>m.
     and_then (subscript data ''parent'') (\<lambda>p.
     and_then (subscript data ''timestamp'') (\<lambda>ts.
     and_then (case ts of JStr s \<Rightarrow> fromisoformat s | _ \<Rightarrow> Inl TypeError) (\<lambda>t.
       (case (as_str i, as_str m, as_opt_str p, as_opt_str (json_get data ''second_parent'')) of
          (Some i', Some m', Some p', Some sp') \<Rightarrow>
            Inr ((GitCommit_init i' m' p' sp' t)\<lparr>timestamp := t\<rparr>)
        | _ \<Rightarrow> Inl OutsideModel))))))"

text \<open>\<^verbatim>\<open>GitBranch.from_dict\<close>, with the random index its constructor may draw.\<close>

definition GitBranch_from_dict :: "nat \<Rightarrow> json \<Rightarrow> error + GitBranch" where
  "GitBranch_from_dict pick data =
     and_then (subscript data ''name'') (\<lambda>n.
     and_then (subscript data ''head'') (\<lambda>h.
     and_then (subscript data ''color'') (\<lambda>c.
       (case (as_str n, as_str h,
              if py_falsy c then Some None else map_option Some (as_str c)) of
          (Some n', Some h', Some c') \<Rightarrow> Inr (GitBranch_init n' h' c' pick)
        | _ \<Rightarrow> Inl OutsideModel))))"

text \<open>\<^verbatim>\<open>save_to_file\<close>: the document written.\<close>

definition save_to_file :: "GitRepository \<Rightarrow> json" where
  "save_to_file r =
     JObj [(''commits'', JObj (map (\<lambda>(k, c). (k, GitCommit_to_dict c)) (commits r))),
           (''branches'', JObj (map (\<lambda>(k, b). (k, GitBranch_to_dict b)) (branches r))),
           (''current_branch'', JStr (current_branch r))]"

text \<open>The two \<^verbatim>\<open>for\<close> loops of \<^verbatim>\<open>load_from_file\<close>; \<open>choice k\<close> is the random index drawn
  while the branch stored under \<open>k\<close> is built.\<close>

fun load_commits ::
  "(string \<times> json) list \<Rightarrow> (string, GitCommit) dict \<Rightarrow> error + (string, GitCommit) dict" where
  "load_commits [] acc = Inr acc"
| "load_commits ((k, d) # rest) acc =
     and_then (GitCommit_from_dict d) (\<lambda>c. load_commits rest (dict_set acc k c))"

fun load_branches ::
  "(string \<Rightarrow> nat) \<Rightarrow> (string \<times> json) list \<Rightarrow> (string, GitBranch) dict \<Rightarrow>
   error + (string, GitBranch) dict" where
  "load_branches choice [] acc = Inr acc"
| "load_branches choice ((k, d) # rest) acc =
     and_then (GitBranch_from_dict (choice k) d)
       (\<lambda>b. load_branches choice rest (dict_set acc k b))"

text \<open>
  \<^verbatim>\<open>load_from_file\<close>, on the document \<^verbatim>\<open>json.load\<close> returned. The repository \<^verbatim>\<open>cls()\<close>
  builds first is overwritten field by field, so nothing of it remains. The last statement,
  \<^verbatim>\<open>repo.head = data['head']\<close>, sets an attribute that no other code reads; the model keeps
  its lookup and not the attribute.
\<close>

definition load_from_file :: "(string \<Rightarrow> nat) \<Rightarrow> json \<Rightarrow> error + GitRepository" where
  "load_from_file choice data =
     and_then (subscript data ''commits'') (\<lambda>cs.
     and_then (items cs) (\<lambda>commit_items.
     and_then (load_commits commit_items []) (\<lambda>commits'.
     and_then (subscript data ''branches'') (\<lambda>bs.
     and_then (items bs) (\<lambda>branch_items.
     and_then (load_branches choice branch_items []) (\<lambda>branches'.
     and_then (subscript data ''current_branch'') (\<lambda>cb.
     and_then (subscript data ''head'') (\<lambda>h.
       (case as_str cb of
          Some s \<Rightarrow> Inr \<lparr>commits = commits', branches = branches', current_branch = s\<rparr>
        | None \<Rightarrow> Inl OutsideModel)))))))))"

section \<open>Reachable states, first-parent history\<close>

text \<open>The states the four in-memory operations build from a new repository, whatever the
  clock shows and whatever colours are drawn. A call that raises builds no state.\<close>

inductive reachable :: "GitRepository \<Rightarrow> bool" where
  init: "reachable (GitRepository_init now pick)"
| commit: "reachable r \<Longrightarrow> reachable (snd (create_commit now msg r))"
| branch: "reachable r \<Longrightarrow> create_branch pick nm r = Inr (res, r') \<Longrightarrow> reachable r'"
| checkout: "reachable r \<Longrightarrow> reachable (snd (checkout_branch nm r))"
| merge: "reachable r \<Longrightarrow> merge_branches now nm r = Inr (res, r') \<Longrightarrow> reachable r'"

text \<open>Every branch points at a commit of the repository.\<close>

definition heads_in_commits :: "GitRepository \<Rightarrow> bool" where
  "heads_in_commits r = (\<forall>(n, b) \<in> set (branches r). dict_contains (head b) (commits r))"

text \<open>The \<^verbatim>\<open>parent\<close> links of a commits dictionary, as a relation on ids: \<open>(a, p)\<close> when
  \<open>a\<close> is the key of a commit whose \<^verbatim>\<open>parent\<close> is \<open>p\<close>. \<^verbatim>\<open>second_parent\<close> plays no part.\<close>

definition parent_link :: "(string, GitCommit) dict \<Rightarrow> (string \<times> string) set" where
  "parent_link cs = {(a, p). \<exists>k. dict_get cs a = Some k \<and> parent k = Some p}"


text \<open>
  The first-parent chain from an id: the commits met by following \<^verbatim>\<open>parent\<close> links,
  in order, up to the first commit with no parent, or up to an id that is empty or is not
  a key of the dictionary. \<open>parent_walk cs cur ks\<close>: starting at \<open>cur\<close> the chain is \<open>ks\<close>;
  there is no chain when following the links never comes to such an end.
\<close>

inductive parent_walk ::
  "(string, GitCommit) dict \<Rightarrow> string option \<Rightarrow> GitCommit list \<Rightarrow> bool" where
  no_parent: "parent_walk cs None []"
| empty_id: "parent_walk cs (Some []) []"
| missing: "c \<noteq> [] \<Longrightarrow> dict_get cs c = None \<Longrightarrow> parent_walk cs (Some c) []"
| follow: "c \<noteq> [] \<Longrightarrow> dict_get cs c = Some k \<Longrightarrow> parent_walk cs (parent k) ks \<Longrightarrow>
           parent_walk cs (Some c) (k # ks)"

text \<open>The text of a log that holds the records of the commits \<open>ks\<close>.\<close>

definition log_text :: "GitCommit list \<Rightarrow> string" where
  "log_text ks =
     (if ks = [] then ''No commits yet'' else py_join [CHR 0x0A] (concat (map log_entry ks)))"

text \<open>
  The commits are numbered in the order they were made: the entry at position \<open>i\<close> has the
  key \<^verbatim>\<open>C\<close> followed by \<open>i\<close>, and its parent, when it has one, is the key of an earlier
  entry.
\<close>

definition numbered :: "(string, GitCommit) dict \<Rightarrow> bool" where
  "numbered cs =
     (\<forall>i < length cs. fst (cs ! i) = ''C'' @ str_nat i \<and>
        (\<forall>p. parent (snd (cs ! i)) = Some p \<longrightarrow> (\<exists>j < i. p = ''C'' @ str_nat j)))"

section \<open>Example values\<close>

text \<open>Three readings of the clock.\<close>

definition t0 :: datetime where
  "t0 = \<lparr>year = 2024, month = 5, day = 17, hour = 9, minute = 30, second = 0, microsecond = 0,
          tzinfo = None\<rparr>"

definition t1 :: datetime where
  "t1 = \<lparr>year = 2024, month = 5, day = 17, hour = 9, minute = 31, second = 5,
          microsecond = 1234, tzinfo = None\<rparr>"

definition t2 :: datetime where
  "t2 = \<lparr>year = 2024, month = 5, day = 17, hour = 9, minute = 32, second = 0, microsecond = 0,
          tzinfo = None\<rparr>"

definition commit0 :: GitCommit where
  "commit0 = \<lparr>commit_id = ''C0'', message = ''Initial commit'', parent = None,
              second_parent = None, timestamp = t0\<rparr>"

text \<open>A document with a \<^verbatim>\<open>head\<close> key, as a hand-written file can hold, whose
  \<^verbatim>\<open>current_branch\<close> names no branch, and the repository \<^verbatim>\<open>load_from_file\<close> builds
  from it.\<close>

definition ghost_document :: json where
  "ghost_document =
     JObj [(''commits'', JObj [(''C0'', GitCommit_to_dict commit0)]),
           (''branches'',
            JObj [(''master'', JObj [(''name'', JStr ''master''), (''head'', JStr ''C0''),
                                    (''color'', JStr ''#2196f3'')])]),
           (''current_branch'', JStr ''ghost''),
           (''head'', JNull)]"

definition ghost_repo :: GitRepository where
  "ghost_repo =
     \<lparr>commits = [(''C0'', commit0)],
      branches = [(''master'', \<lparr>name = ''master'', head = ''C0'', color = ''#2196f3''\<rparr>)],
      current_branch = ''ghost''\<rparr>"

text \<open>A document, written by hand, whose only commit is its own parent, and the
  repository \<^verbatim>\<open>load_from_file\<close> builds from it.\<close>

definition cyclic_document :: json where
  "cyclic_document =
     JObj [(''commits'', JObj [(''C0'', GitCommit_to_dict (commit0\<lparr>parent := Some ''C0''\<rparr>))]),
           (''branches'',
            JObj [(''master'', JObj [(''name'', JStr ''master''), (''head'', JStr ''C0''),
                                    (''color'', JStr ''#2196f3'')])]),
           (''current_branch'', JStr ''master''),
           (''head'', JStr ''C0'')]"

definition cyclic_repo :: GitRepository where
  "cyclic_repo =
     \<lparr>commits = [(''C0'', commit0\<lparr>parent := Some ''C0''\<rparr>)],
      branches = [(''master'', \<lparr>name = ''master'', head = ''C0'', color = ''#2196f3''\<rparr>)],
      current_branch = ''master''\<rparr>"

text \<open>A repository whose head commit \<^verbatim>\<open>C1\<close> names a parent \<^verbatim>\<open>C0\<close> that is not in
  \<^verbatim>\<open>commits\<close>.\<close>

definition commit1 :: GitCommit where
  "commit1 = \<lparr>commit_id = ''C1'', message = ''work'', parent = Some ''C0'',
              second_parent = None, timestamp = t1\<rparr>"


text \<open>
  The scenario of the specification: \<^verbatim>\<open>branch b\<close>, \<^verbatim>\<open>checkout b\<close>, \<^verbatim>\<open>commit work\<close>,
  \<^verbatim>\<open>checkout master\<close>, \<^verbatim>\<open>merge b\<close> on a new repository, and the repository it ends in.
\<close>

definition merge_scenario :: "error + GitRepository" where
  "merge_scenario =
     (case create_branch 1 ''b'' (GitRepository_init t0 0) of
        Inl e \<Rightarrow> Inl e
      | Inr (_, r1) \<Rightarrow>
          (let r2 = snd (checkout_branch ''b'' r1);
               r3 = snd (create_commit t1 ''work'' r2);
               r4 = snd (checkout_branch ''master'' r3)
           in case merge_branches t2 ''b'' r4 of
                Inl e \<Rightarrow> Inl e
              | Inr (_, r5) \<Rightarrow> Inr r5))"

definition commit2 :: GitCommit where
  "commit2 = \<lparr>commit_id = ''C2'', message = ''Merge branch '' @ sq @ ''b'' @ sq @ '' into master'',
              parent = Some ''C0'', second_parent = Some ''C1'', timestamp = t2\<rparr>"

definition merged_repo :: GitRepository where
  "merged_repo =
     \<lparr>commits = [(''C0'', commit0), (''C1'', commit1), (''C2'', commit2)],
      branches = [(''master'', \<lparr>name = ''master'', head = ''C2'', color = ''#2196f3''\<rparr>),
                  (''b'', \<lparr>name = ''b'', head = ''C1'', color = ''#4caf50''\<rparr>)],
      current_branch = ''master''\<rparr>"

section \<open>Dictionaries\<close>

lemma and_then_Inl [simp]: "and_then (Inl e) f = Inl e"
  by (simp add: and_then_def)

lemma and_then_Inr [simp]: "and_then (Inr x) f = f x"
  by (simp add: and_then_def)

lemma dict_get_set: "dict_get (dict_set d k v) = (dict_get d)(k \<mapsto> v)"
  by (rule ext) (simp add: dict_get_def dict_set_def update_conv')

lemma dict_contains_get: "dict_contains k d \<longleftrightarrow> dict_get d k \<noteq> None"
  by (simp add: dict_contains_def dict_get_def)

lemma dict_contains_set: "dict_contains k (dict_set d k' v) \<longleftrightarrow> k = k' \<or> dict_contains k d"
  by (simp add: dict_contains_get dict_get_set)

lemma dict_set_values:
  "(k, v) \<in> set (dict_set d k' v') \<Longrightarrow> (k, v) \<in> set d \<or> (k = k' \<and> v = v')"
  unfolding dict_set_def by (induction d) (auto split: if_splits)

section \<open>A new repository\<close>

text \<open>
  C4. A freshly constructed repository holds exactly one commit, \<^verbatim>\<open>C0\<close>, with the message
  \<^verbatim>\<open>Initial commit\<close> and no parent, exactly one branch, \<^verbatim>\<open>master\<close>, whose head is \<^verbatim>\<open>C0\<close>,
  and its current branch is \<^verbatim>\<open>master\<close>. This holds for every reading of the clock and
  every colour drawn.
\<close>

theorem fresh_repository:
  "GitRepository_init now pick =
     \<lparr>commits = [(''C0'', \<lparr>commit_id = ''C0'', message = ''Initial commit'', parent = None,
                            second_parent = None, timestamp = now\<rparr>)],
      branches = [(''master'', \<lparr>name = ''master'', head = ''C0'',
                                color = generate_color pick\<rparr>)],
      current_branch = ''master''\<rparr>"
  by (simp add: GitRepository_init_def initialize_repo_def GitCommit_init_def
      GitBranch_init_def dict_set_def)

section \<open>Commits\<close>

lemma GitRepository_init_eq:
  "GitRepository_init now pick =
     \<lparr>commits = [(''C0'', GitCommit_init ''C0'' ''Initial commit'' None None now)],
      branches = [(''master'', \<lparr>name = ''master'', head = ''C0'',
                                color = generate_color pick\<rparr>)],
      current_branch = ''master''\<rparr>"
  by (simp add: GitRepository_init_def initialize_repo_def GitCommit_init_def
      GitBranch_init_def dict_set_def)

lemma str_nat_1: "str_nat (Suc 0) = ''1''"
  by (simp add: str_nat.simps digit_char_def)

text \<open>
  C5. In every state whose current branch is a key of \<^verbatim>\<open>branches\<close>, \<^verbatim>\<open>create_commit\<close>
  succeeds; the id is \<^verbatim>\<open>C\<close> followed by the number of commits; the commits mapping
  afterwards is the one before plus, under that id, a commit with that id, the given
  message, the current branch's head as parent and no second parent; the branches mapping
  is the one before with the current branch's head moved to the new id; the current
  branch is the same. On a new repository the commit is \<^verbatim>\<open>C1\<close> with parent \<^verbatim>\<open>C0\<close>, and
  the head of \<^verbatim>\<open>master\<close> becomes \<^verbatim>\<open>C1\<close>.
\<close>

theorem create_commit_succeeds:
  assumes "dict_get (branches r) (current_branch r) = Some b"
  shows "(let cid = ''C'' @ str_nat (dict_len (commits r));
              ((ok, text), r') = create_commit now msg r
          in ok \<and> text = ''Created commit '' @ cid @ '': '' @ msg \<and>
             dict_get (commits r') =
               (dict_get (commits r))(cid \<mapsto>
                  \<lparr>commit_id = cid, message = msg, parent = Some (head b),
                   second_parent = None, timestamp = now\<rparr>) \<and>
             dict_get (branches r') =
               (dict_get (branches r))(current_branch r \<mapsto> b\<lparr>head := cid\<rparr>) \<and>
             current_branch r' = current_branch r) \<and>
         (let r1 = snd (create_commit now msg (GitRepository_init now0 pick))
          in dict_get (commits r1) ''C1'' =
               Some \<lparr>commit_id = ''C1'', message = msg, parent = Some ''C0'',
                     second_parent = None, timestamp = now\<rparr> \<and>
             map_option head (dict_get (branches r1) ''master'') = Some ''C1'')"
proof -
  have "dict_get (branches (GitRepository_init now0 pick))
          (current_branch (GitRepository_init now0 pick)) =
        Some \<lparr>name = ''master'', head = ''C0'', color = generate_color pick\<rparr>"
    by (simp add: GitRepository_init_eq dict_get_def)
  then have "snd (create_commit now msg (GitRepository_init now0 pick)) =
      (GitRepository_init now0 pick)
        \<lparr>commits := dict_set (commits (GitRepository_init now0 pick)) ''C1''
                      (GitCommit_init ''C1'' msg (Some ''C0'') None now),
         branches := dict_set (branches (GitRepository_init now0 pick)) ''master''
                      \<lparr>name = ''master'', head = ''C1'', color = generate_color pick\<rparr>\<rparr>"
    by (simp add: create_commit_def Let_def)
       (simp add: GitRepository_init_eq dict_len_def str_nat_1)
  then have fresh: "let r1 = snd (create_commit now msg (GitRepository_init now0 pick))
      in dict_get (commits r1) ''C1'' =
               Some \<lparr>commit_id = ''C1'', message = msg, parent = Some ''C0'',
                     second_parent = None, timestamp = now\<rparr> \<and>
         map_option head (dict_get (branches r1) ''master'') = Some ''C1''"
    by (simp add: Let_def dict_get_set GitCommit_init_def)
  from assms have "let cid = ''C'' @ str_nat (dict_len (commits r));
              ((ok, text), r') = create_commit now msg r
          in ok \<and> text = ''Created commit '' @ cid @ '': '' @ msg \<and>
             dict_get (commits r') =
               (dict_get (commits r))(cid \<mapsto>
                  \<lparr>commit_id = cid, message = msg, parent = Some (head b),
                   second_parent = None, timestamp = now\<rparr>) \<and>
             dict_get (branches r') =
               (dict_get (branches r))(current_branch r \<mapsto> b\<lparr>head := cid\<rparr>) \<and>
             current_branch r' = current_branch r"
    by (simp add: create_commit_def Let_def dict_get_set GitCommit_init_def)
  with fresh show ?thesis by blast
qed

theorem create_commit_succeeds_witness:
  "dict_get (branches merged_repo) (current_branch merged_repo) =
     Some \<lparr>name = ''master'', head = ''C2'', color = ''#2196f3''\<rparr> \<and>
   fst (create_commit t1 ''fix'' merged_repo) = (True, ''Created commit C3: fix'') \<and>
   dict_get (commits (snd (create_commit t1 ''fix'' merged_repo))) ''C3'' =
     Some \<lparr>commit_id = ''C3'', message = ''fix'', parent = Some ''C2'',
           second_parent = None, timestamp = t1\<rparr> \<and>
   dict_get (branches (snd (create_commit t1 ''fix'' merged_repo))) ''master'' =
     Some \<lparr>name = ''master'', head = ''C3'', color = ''#2196f3''\<rparr> \<and>
   dict_get (branches (snd (create_commit t1 ''fix'' merged_repo))) ''b'' =
     Some \<lparr>name = ''b'', head = ''C1'', color = ''#4caf50''\<rparr>"
proof -
  have cur: "dict_get (branches merged_repo) (current_branch merged_repo) =
     Some \<lparr>name = ''master'', head = ''C2'', color = ''#2196f3''\<rparr>"
    by (simp add: merged_repo_def dict_get_def)
  have len: "str_nat (dict_len (commits merged_repo)) = ''3''"
    by (simp add: merged_repo_def dict_len_def str_nat.simps digit_char_def)
  obtain ok out r' where eq: "create_commit t1 ''fix'' merged_repo = ((ok, out), r')"
    by (metis prod.exhaust)
  from create_commit_succeeds [OF cur, of t1 "''fix''" t0 0]
  have "ok" and "out = ''Created commit C3: fix''"
    and "dict_get (commits r') =
          (dict_get (commits merged_repo))(''C3'' \<mapsto>
             \<lparr>commit_id = ''C3'', message = ''fix'', parent = Some ''C2'',
              second_parent = None, timestamp = t1\<rparr>)"
    and "dict_get (branches r') =
          (dict_get (branches merged_repo))(current_branch merged_repo \<mapsto>
             \<lparr>name = ''master'', head = ''C3'', color = ''#2196f3''\<rparr>)"
    by (simp_all add: Let_def len eq)
  then show ?thesis
    using cur by (simp add: eq) (simp add: merged_repo_def dict_get_def)
qed

section \<open>Evaluating the examples\<close>

lemma zpad_examples:
  "zpad 4 2024 = ''2024''" "zpad 2 5 = ''05''" "zpad 2 17 = ''17''" "zpad 2 9 = ''09''"
  "zpad 2 30 = ''30''" "zpad 2 31 = ''31''" "zpad 2 32 = ''32''" "zpad 2 0 = ''00''"
  by (simp_all add: zpad_def str_nat.simps digit_char_def)

lemma isoformat_t0: "isoformat t0 = ''2024-05-17T09:30:00''"
  by (simp add: isoformat_def t0_def zpad_examples)

lemma find_separator_t0:
  "find_isoformat_datetime_separator ''2024-05-17T09:30:00'' 19 = Some 10"
  by (simp add: find_isoformat_datetime_separator_def byte_at_def)

lemma parse_date_t0: "parse_isoformat_date ''2024-05-17T09:30:00'' 10 = Some (2024, 5, 17)"
  by (simp add: parse_isoformat_date_def parse_digits_def byte_at_def is_digit_def
      digit_val_def iso_to_ymd_def)

lemma parse_hms_t0:
  "parse_hh_mm_ss_ff ''2024-05-17T09:30:00'' 11 19 = Some (False, [9, 30, 0, 0])"
  by (simp add: parse_hh_mm_ss_ff_def parse_digits_def byte_at_def is_digit_def digit_val_def
      numeral_3_eq_3)

lemma parse_time_t0:
  "parse_isoformat_time ''2024-05-17T09:30:00'' 11 8 = Some ([9, 30, 0, 0], None)"
  by (simp add: parse_isoformat_time_def is_tz_byte_def parse_hms_t0)

lemma fromisoformat_t0: "fromisoformat ''2024-05-17T09:30:00'' = Inr t0"
proof -
  have len: "length ''2024-05-17T09:30:00'' = 19"
    by simp
  have sep: "byte_at ''2024-05-17T09:30:00'' 10 = 84"
    by (simp add: byte_at_def)
  show ?thesis
    unfolding fromisoformat_def len Let_def
    by (simp add: find_separator_t0 parse_date_t0 sep utf8_width_def parse_time_t0
        valid_datetime_def days_in_month_def t0_def)
qed

text \<open>A string that is no date is refused, and a date alone is midnight of that day.\<close>

lemma fromisoformat_examples:
  "fromisoformat ''yesterday'' = Inl ValueError"
  "fromisoformat ''2024-05-17'' =
     Inr \<lparr>year = 2024, month = 5, day = 17, hour = 0, minute = 0, second = 0, microsecond = 0,
          tzinfo = None\<rparr>"
proof -
  have "length ''yesterday'' = 9" "length ''2024-05-17'' = 10"
    by simp_all
  then show "fromisoformat ''yesterday'' = Inl ValueError"
    "fromisoformat ''2024-05-17'' =
       Inr \<lparr>year = 2024, month = 5, day = 17, hour = 0, minute = 0, second = 0,
            microsecond = 0, tzinfo = None\<rparr>"
    unfolding fromisoformat_def Let_def
    by (simp_all add: find_isoformat_datetime_separator_def parse_isoformat_date_def
        parse_digits_def byte_at_def is_digit_def digit_val_def valid_datetime_def
        days_in_month_def)
qed

lemma commit0_from_dict: "GitCommit_from_dict (GitCommit_to_dict commit0) = Inr commit0"
  by (simp add: GitCommit_from_dict_def GitCommit_to_dict_def subscript_def json_get_def
      dict_get_def as_str_def as_opt_str_def opt_json_def GitCommit_init_def commit0_def
      isoformat_t0 fromisoformat_t0)

lemma load_ghost_document: "load_from_file (\<lambda>k. 0) ghost_document = Inr ghost_repo"
  by (simp add: load_from_file_def ghost_document_def subscript_def items_def dict_get_def
      commit0_from_dict GitBranch_from_dict_def as_str_def py_falsy_def GitBranch_init_def
      dict_set_def ghost_repo_def)

lemma load_cyclic_document: "load_from_file (\<lambda>k. 0) cyclic_document = Inr cyclic_repo"
proof -
  have "GitCommit_from_dict (GitCommit_to_dict (commit0\<lparr>parent := Some ''C0''\<rparr>)) =
      Inr (commit0\<lparr>parent := Some ''C0''\<rparr>)"
    by (simp add: GitCommit_from_dict_def GitCommit_to_dict_def subscript_def json_get_def
        dict_get_def as_str_def as_opt_str_def opt_json_def GitCommit_init_def commit0_def
        isoformat_t0 fromisoformat_t0)
  then show ?thesis
    by (simp add: load_from_file_def cyclic_document_def subscript_def items_def dict_get_def
        GitBranch_from_dict_def as_str_def py_falsy_def GitBranch_init_def dict_set_def
        cyclic_repo_def)
qed

lemma merge_scenario_result: "merge_scenario = Inr merged_repo"
  by (simp add: merge_scenario_def GitRepository_init_def initialize_repo_def create_branch_def
      checkout_branch_def create_commit_def merge_branches_def dict_contains_def dict_get_def
      dict_set_def dict_len_def GitCommit_init_def GitBranch_init_def generate_color_def
      colors_def str_nat.simps digit_char_def Let_def merged_repo_def commit0_def commit1_def
      commit2_def)

text \<open>The example repository is a reachable state.\<close>

lemma reachable_merged_repo: "reachable merged_repo"
proof -
  from merge_scenario_result obtain res1 r1 res5 where
    b: "create_branch 1 ''b'' (GitRepository_init t0 0) = Inr (res1, r1)"
    and m: "merge_branches t2 ''b''
       (snd (checkout_branch ''master'' (snd (create_commit t1 ''work''
          (snd (checkout_branch ''b'' r1)))))) = Inr (res5, merged_repo)"
    by (auto simp: merge_scenario_def Let_def split: sum.splits prod.splits)
  have "reachable r1"
    using reachable.init b by (rule reachable.branch)
  then have "reachable (snd (checkout_branch ''master'' (snd (create_commit t1 ''work''
          (snd (checkout_branch ''b'' r1))))))"
    by (intro reachable.checkout reachable.commit)
  then show ?thesis
    using m by (rule reachable.merge)
qed

lemma merged_repo_current:
  "dict_get (branches merged_repo) (current_branch merged_repo) =
     Some \<lparr>name = ''master'', head = ''C2'', color = ''#2196f3''\<rparr>"
  by (simp add: merged_repo_def dict_get_def)

lemma merged_repo_b:
  "dict_get (branches merged_repo) ''b'' = Some \<lparr>name = ''b'', head = ''C1'', color = ''#4caf50''\<rparr>"
  by (simp add: merged_repo_def dict_get_def)

section \<open>Branches\<close>

lemma create_branch_duplicate:
  "dict_contains nm (branches r) \<Longrightarrow>
   create_branch pick nm r =
     Inr ((False, ''Error: Branch '' @ sq @ nm @ sq @ '' already exists''), r)"
  by (simp add: create_branch_def)

lemma create_branch_new:
  assumes "\<not> dict_contains nm (branches r)"
    and "dict_get (branches r) (current_branch r) = Some cur"
  shows "create_branch pick nm r =
     Inr ((True, ''Created branch '' @ sq @ nm @ sq @ '' at commit '' @ head cur),
          r\<lparr>branches := dict_set (branches r) nm
                          \<lparr>name = nm, head = head cur, color = generate_color pick\<rparr>\<rparr>)"
  using assms by (simp add: create_branch_def GitBranch_init_def Let_def)

lemma create_branch_no_current:
  assumes "\<not> dict_contains nm (branches r)"
    and "dict_get (branches r) (current_branch r) = None"
  shows "create_branch pick nm r = Inl (KeyError (current_branch r))"
  using assms by (simp add: create_branch_def)

text \<open>
  C8, as the code has it. When the name is a key of \<^verbatim>\<open>branches\<close>, \<^verbatim>\<open>create_branch\<close> fails
  and returns the repository as it was. When the name is new and the current branch is a
  key of \<^verbatim>\<open>branches\<close>, it succeeds: the branches mapping afterwards is the one before plus
  the new name, bound to a branch of that name whose head is the current branch's head;
  commits and the current branch are the same.
\<close>

theorem create_branch_spec:
  "(dict_contains nm (branches r) \<longrightarrow>
      (\<exists>msg. create_branch pick nm r = Inr ((False, msg), r))) \<and>
   (\<not> dict_contains nm (branches r) \<and> dict_get (branches r) (current_branch r) = Some cur \<longrightarrow>
      (\<exists>msg r'. create_branch pick nm r = Inr ((True, msg), r') \<and>
         dict_get (branches r') =
           (dict_get (branches r))(nm \<mapsto> \<lparr>name = nm, head = head cur,
                                           color = generate_color pick\<rparr>) \<and>
         (\<forall>other. other \<noteq> nm \<longrightarrow> dict_get (branches r') other = dict_get (branches r) other) \<and>
         commits r' = commits r \<and> current_branch r' = current_branch r))"
proof (intro conjI impI)
  assume "dict_contains nm (branches r)"
  then show "\<exists>msg. create_branch pick nm r = Inr ((False, msg), r)"
    using create_branch_duplicate by blast
next
  assume "\<not> dict_contains nm (branches r) \<and>
          dict_get (branches r) (current_branch r) = Some cur"
  then have eq: "create_branch pick nm r =
     Inr ((True, ''Created branch '' @ sq @ nm @ sq @ '' at commit '' @ head cur),
          r\<lparr>branches := dict_set (branches r) nm
                          \<lparr>name = nm, head = head cur, color = generate_color pick\<rparr>\<rparr>)"
    using create_branch_new by blast
  show "\<exists>msg r'. create_branch pick nm r = Inr ((True, msg), r') \<and>
         dict_get (branches r') =
           (dict_get (branches r))(nm \<mapsto> \<lparr>name = nm, head = head cur,
                                           color = generate_color pick\<rparr>) \<and>
         (\<forall>other. other \<noteq> nm \<longrightarrow> dict_get (branches r') other = dict_get (branches r) other) \<and>
         commits r' = commits r \<and> current_branch r' = current_branch r"
    unfolding eq by (simp add: dict_get_set)
qed

theorem create_branch_spec_witness:
  "dict_contains ''b'' (branches merged_repo) \<and>
   create_branch 3 ''b'' merged_repo =
     Inr ((False, ''Error: Branch '' @ sq @ ''b'' @ sq @ '' already exists''), merged_repo) \<and>
   \<not> dict_contains ''feature'' (branches merged_repo) \<and>
   dict_get (branches merged_repo) (current_branch merged_repo) =
     Some \<lparr>name = ''master'', head = ''C2'', color = ''#2196f3''\<rparr> \<and>
   (\<exists>msg r'. create_branch 3 ''feature'' merged_repo = Inr ((True, msg), r') \<and>
      dict_get (branches r') ''feature'' =
        Some \<lparr>name = ''feature'', head = ''C2'', color = ''#ff9800''\<rparr> \<and>
      dict_get (branches r') ''b'' = Some \<lparr>name = ''b'', head = ''C1'', color = ''#4caf50''\<rparr> \<and>
      commits r' = commits merged_repo \<and> current_branch r' = ''master'')"
proof -
  have dup: "dict_contains ''b'' (branches merged_repo)"
    by (simp add: merged_repo_def dict_contains_def)
  have new: "\<not> dict_contains ''feature'' (branches merged_repo)"
    by (simp add: merged_repo_def dict_contains_def)
  have cur: "dict_get (branches merged_repo) (current_branch merged_repo) =
     Some \<lparr>name = ''master'', head = ''C2'', color = ''#2196f3''\<rparr>"
    by (simp add: merged_repo_def dict_get_def)
  have col: "generate_color 3 = ''#ff9800''"
    by (simp add: generate_color_def colors_def)
  have b: "dict_get (branches merged_repo) ''b'' =
      Some \<lparr>name = ''b'', head = ''C1'', color = ''#4caf50''\<rparr>"
    by (simp add: merged_repo_def dict_get_def)
  have cb: "current_branch merged_repo = ''master''"
    by (simp add: merged_repo_def)
  from create_branch_spec [of "''b''" merged_repo 3] dup
  have 1: "create_branch 3 ''b'' merged_repo =
     Inr ((False, ''Error: Branch '' @ sq @ ''b'' @ sq @ '' already exists''), merged_repo)"
    by (simp add: create_branch_duplicate)
  from create_branch_spec [of "''feature''" merged_repo 3
      "\<lparr>name = ''master'', head = ''C2'', color = ''#2196f3''\<rparr>"] new cur
  obtain msg r' where "create_branch 3 ''feature'' merged_repo = Inr ((True, msg), r')"
    and "dict_get (branches r') =
           (dict_get (branches merged_repo))(''feature'' \<mapsto>
              \<lparr>name = ''feature'', head = ''C2'', color = ''#ff9800''\<rparr>)"
    and "commits r' = commits merged_repo" and "current_branch r' = ''master''"
    by (auto simp: col cb)
  then have "\<exists>msg r'. create_branch 3 ''feature'' merged_repo = Inr ((True, msg), r') \<and>
      dict_get (branches r') ''feature'' =
        Some \<lparr>name = ''feature'', head = ''C2'', color = ''#ff9800''\<rparr> \<and>
      dict_get (branches r') ''b'' = Some \<lparr>name = ''b'', head = ''C1'', color = ''#4caf50''\<rparr> \<and>
      commits r' = commits merged_repo \<and> current_branch r' = ''master''"
    using b by simp
  with dup new cur 1 show ?thesis by blast
qed

text \<open>
  C8 as the specification states it, for every state, fails where the current branch is
  not a key of \<^verbatim>\<open>branches\<close>: with a new name the call raises \<^verbatim>\<open>KeyError\<close>. The repository
  is the one \<^verbatim>\<open>load_from_file\<close> builds from \<open>ghost_document\<close>.
\<close>

theorem create_branch_raises:
  "load_from_file (\<lambda>k. 0) ghost_document = Inr ghost_repo \<and>
   \<not> dict_contains ''feature'' (branches ghost_repo) \<and>
   create_branch 0 ''feature'' ghost_repo = Inl (KeyError ''ghost'')"
proof -
  have "load_from_file (\<lambda>k. 0) ghost_document = Inr ghost_repo"
    by (rule load_ghost_document)
  moreover have "\<not> dict_contains ''feature'' (branches ghost_repo)"
    by (simp add: ghost_repo_def dict_contains_def)
  moreover have "create_branch 0 ''feature'' ghost_repo = Inl (KeyError ''ghost'')"
    by (simp add: create_branch_def ghost_repo_def dict_contains_def dict_get_def)
  ultimately show ?thesis by blast
qed

section \<open>Merges\<close>

lemma merge_unknown_source:
  "dict_get (branches r) nm = None \<Longrightarrow>
   merge_branches now nm r = Inr ((False, ''Error: Branch '' @ sq @ nm @ sq @ '' not found''), r)"
  by (simp add: merge_branches_def)

lemma merge_up_to_date:
  assumes "dict_get (branches r) nm = Some sb"
    and "dict_get (branches r) (current_branch r) = Some tb"
    and "head tb = head sb"
  shows "merge_branches now nm r = Inr ((True, ''Already up to date. Nothing to merge.''), r)"
  using assms by (simp add: merge_branches_def)

lemma merge_commit_created:
  assumes "dict_get (branches r) nm = Some sb"
    and "dict_get (branches r) (current_branch r) = Some tb"
    and "head tb \<noteq> head sb"
  shows "merge_branches now nm r =
     Inr ((True, ''Merged '' @ sq @ nm @ sq @ '' into '' @ sq @ current_branch r @ sq),
          r\<lparr>commits := dict_set (commits r) (''C'' @ str_nat (dict_len (commits r)))
               \<lparr>commit_id = ''C'' @ str_nat (dict_len (commits r)),
                message = ''Merge branch '' @ sq @ nm @ sq @ '' into '' @ current_branch r,
                parent = Some (head tb), second_parent = Some (head sb), timestamp = now\<rparr>,
            branches := dict_set (branches r) (current_branch r)
               (tb\<lparr>head := ''C'' @ str_nat (dict_len (commits r))\<rparr>)\<rparr>)"
  using assms by (simp add: merge_branches_def Let_def GitCommit_init_def)

lemma merge_no_current:
  assumes "dict_get (branches r) nm = Some sb"
    and "dict_get (branches r) (current_branch r) = None"
  shows "merge_branches now nm r = Inl AttributeError"
  using assms by (simp add: merge_branches_def)

text \<open>
  C6, as the code has it. In every state in which the source branch and the current
  branch are keys of \<^verbatim>\<open>branches\<close>: when their heads are equal, \<^verbatim>\<open>merge_branches\<close> succeeds
  and returns the repository as it was (so a second call finds the same state and does the
  same); otherwise it succeeds, the commits mapping afterwards is the one before plus a
  commit under the id \<^verbatim>\<open>C\<close> followed by the number of commits, whose parent is the current
  branch's head, whose second parent is the source branch's head and whose message is
  \<^verbatim>\<open>Merge branch '<source>' into <current>\<close>; the branches mapping is the one before with
  the current branch's head moved to the new id, the source branch is as it was, and the
  current branch is the same.
\<close>

theorem merge_branches_spec:
  assumes "dict_get (branches r) nm = Some sb"
    and "dict_get (branches r) (current_branch r) = Some tb"
  shows "(head tb = head sb \<longrightarrow>
            (\<exists>msg. merge_branches now nm r = Inr ((True, msg), r) \<and>
                   merge_branches now' nm r = Inr ((True, msg), r))) \<and>
         (head tb \<noteq> head sb \<longrightarrow>
            (\<exists>msg r'. merge_branches now nm r = Inr ((True, msg), r') \<and>
               (let cid = ''C'' @ str_nat (dict_len (commits r))
                in dict_get (commits r') =
                     (dict_get (commits r))(cid \<mapsto>
                        \<lparr>commit_id = cid,
                         message = ''Merge branch '' @ sq @ nm @ sq @ '' into '' @ current_branch r,
                         parent = Some (head tb), second_parent = Some (head sb),
                         timestamp = now\<rparr>) \<and>
                   dict_get (branches r') =
                     (dict_get (branches r))(current_branch r \<mapsto> tb\<lparr>head := cid\<rparr>) \<and>
                   dict_get (branches r') nm = Some sb \<and>
                   current_branch r' = current_branch r)))"
proof (cases "head tb = head sb")
  case True
  with assms show ?thesis by (simp add: merge_up_to_date)
next
  case False
  with assms have other: "nm \<noteq> current_branch r" by auto
  note eq = merge_commit_created [OF assms False, of now]
  from other assms(1) show ?thesis
    unfolding eq Let_def by (simp add: False dict_get_set)
qed

theorem merge_branches_spec_witness:
  "dict_get (branches merged_repo) ''b'' = Some \<lparr>name = ''b'', head = ''C1'', color = ''#4caf50''\<rparr> \<and>
   dict_get (branches merged_repo) (current_branch merged_repo) =
     Some \<lparr>name = ''master'', head = ''C2'', color = ''#2196f3''\<rparr> \<and>
   (\<exists>msg r'. merge_branches t1 ''b'' merged_repo = Inr ((True, msg), r') \<and>
      dict_get (commits r') ''C3'' =
        Some \<lparr>commit_id = ''C3'', message = ''Merge branch '' @ sq @ ''b'' @ sq @ '' into master'',
              parent = Some ''C2'', second_parent = Some ''C1'', timestamp = t1\<rparr> \<and>
      dict_get (branches r') ''master'' =
        Some \<lparr>name = ''master'', head = ''C3'', color = ''#2196f3''\<rparr> \<and>
      dict_get (branches r') ''b'' = Some \<lparr>name = ''b'', head = ''C1'', color = ''#4caf50''\<rparr>) \<and>
   (\<exists>msg. merge_branches t1 ''master'' merged_repo = Inr ((True, msg), merged_repo) \<and>
          merge_branches t2 ''master'' merged_repo = Inr ((True, msg), merged_repo))"
proof -
  have b: "dict_get (branches merged_repo) ''b'' =
      Some \<lparr>name = ''b'', head = ''C1'', color = ''#4caf50''\<rparr>"
    by (simp add: merged_repo_def dict_get_def)
  have m: "dict_get (branches merged_repo) ''master'' =
      Some \<lparr>name = ''master'', head = ''C2'', color = ''#2196f3''\<rparr>"
    by (simp add: merged_repo_def dict_get_def)
  have cb: "current_branch merged_repo = ''master''"
    by (simp add: merged_repo_def)
  have cur: "dict_get (branches merged_repo) (current_branch merged_repo) =
      Some \<lparr>name = ''master'', head = ''C2'', color = ''#2196f3''\<rparr>"
    by (simp add: cb m)
  have len: "str_nat (dict_len (commits merged_repo)) = ''3''"
    by (simp add: merged_repo_def dict_len_def str_nat.simps digit_char_def)
  from merge_branches_spec [OF b cur, of t1 t2]
  obtain msg r' where "merge_branches t1 ''b'' merged_repo = Inr ((True, msg), r')"
    and "dict_get (commits r') =
          (dict_get (commits merged_repo))(''C3'' \<mapsto>
             \<lparr>commit_id = ''C3'', message = ''Merge branch '' @ sq @ ''b'' @ sq @ '' into master'',
              parent = Some ''C2'', second_parent = Some ''C1'', timestamp = t1\<rparr>)"
    and "dict_get (branches r') =
          (dict_get (branches merged_repo))(''master'' \<mapsto>
             \<lparr>name = ''master'', head = ''C3'', color = ''#2196f3''\<rparr>)"
    and "dict_get (branches r') ''b'' = Some \<lparr>name = ''b'', head = ''C1'', color = ''#4caf50''\<rparr>"
    by (auto simp: Let_def len cb)
  then have differ: "\<exists>msg r'. merge_branches t1 ''b'' merged_repo = Inr ((True, msg), r') \<and>
      dict_get (commits r') ''C3'' =
        Some \<lparr>commit_id = ''C3'', message = ''Merge branch '' @ sq @ ''b'' @ sq @ '' into master'',
              parent = Some ''C2'', second_parent = Some ''C1'', timestamp = t1\<rparr> \<and>
      dict_get (branches r') ''master'' =
        Some \<lparr>name = ''master'', head = ''C3'', color = ''#2196f3''\<rparr> \<and>
      dict_get (branches r') ''b'' = Some \<lparr>name = ''b'', head = ''C1'', color = ''#4caf50''\<rparr>"
    by simp
  from merge_branches_spec [OF m [folded cb] cur, of t1 t2]
  have same: "\<exists>msg. merge_branches t1 ''master'' merged_repo = Inr ((True, msg), merged_repo) \<and>
          merge_branches t2 ''master'' merged_repo = Inr ((True, msg), merged_repo)"
    by (simp add: cb)
  from b cur differ same show ?thesis by blast
qed

text \<open>
  C6 as the specification states it, for every state in which the source branch exists,
  fails where the current branch is not a key of \<^verbatim>\<open>branches\<close>: the call raises
  \<^verbatim>\<open>AttributeError\<close>. The repository is the one \<^verbatim>\<open>load_from_file\<close> builds from
  \<open>ghost_document\<close>.
\<close>

theorem merge_branches_raises:
  "load_from_file (\<lambda>k. 0) ghost_document = Inr ghost_repo \<and>
   dict_get (branches ghost_repo) ''master'' =
     Some \<lparr>name = ''master'', head = ''C0'', color = ''#2196f3''\<rparr> \<and>
   merge_branches t1 ''master'' ghost_repo = Inl AttributeError"
proof -
  have "dict_get (branches ghost_repo) ''master'' =
     Some \<lparr>name = ''master'', head = ''C0'', color = ''#2196f3''\<rparr>"
    by (simp add: ghost_repo_def dict_get_def)
  moreover have "merge_branches t1 ''master'' ghost_repo = Inl AttributeError"
    by (simp add: merge_branches_def ghost_repo_def dict_get_def)
  ultimately show ?thesis using load_ghost_document by blast
qed

section \<open>Failures that are reported\<close>

lemma checkout_unknown:
  "\<not> dict_contains nm (branches r) \<Longrightarrow>
   checkout_branch nm r = ((False, ''Error: Branch '' @ sq @ nm @ sq @ '' not found''), r)"
  by (simp add: checkout_branch_def)

lemma checkout_known:
  "dict_contains nm (branches r) \<Longrightarrow>
   checkout_branch nm r =
     ((True, ''Switched to branch '' @ sq @ nm @ sq), r\<lparr>current_branch := nm\<rparr>)"
  by (simp add: checkout_branch_def)

lemma create_commit_no_current:
  "dict_get (branches r) (current_branch r) = None \<Longrightarrow>
   create_commit now msg r =
     ((False, ''Error: Current branch '' @ sq @ current_branch r @ sq @ '' not found''), r)"
  by (simp add: create_commit_def)

lemma get_commit_log_no_current:
  "dict_get (branches r) (current_branch r) = None \<Longrightarrow>
   get_commit_log r = Some ''Error: Current branch not found''"
  by (simp add: get_commit_log_def)

text \<open>
  C2. An unknown name given to \<^verbatim>\<open>checkout_branch\<close> or \<^verbatim>\<open>merge_branches\<close> and a
  duplicate name given to \<^verbatim>\<open>create_branch\<close> are reported with a flag and leave the
  repository as it was (\<open>checkout_unknown\<close>, \<open>merge_unknown_source\<close>,
  \<open>create_branch_duplicate\<close>), and so is a current branch that is not a key of
  \<^verbatim>\<open>branches\<close> in \<^verbatim>\<open>create_commit\<close> and \<^verbatim>\<open>get_commit_log\<close>, which test for it
  (\<open>create_commit_no_current\<close>, \<open>get_commit_log_no_current\<close>). \<^verbatim>\<open>create_branch\<close> and
  \<^verbatim>\<open>merge_branches\<close> do not test for it: in the repository loaded from \<open>ghost_document\<close>,
  whose current branch \<^verbatim>\<open>ghost\<close> is no branch, \<^verbatim>\<open>create_commit\<close> and \<^verbatim>\<open>get_commit_log\<close>
  report the failure, \<^verbatim>\<open>create_branch\<close> with a new name raises \<^verbatim>\<open>KeyError\<close> and
  \<^verbatim>\<open>merge_branches\<close> with an existing source raises \<^verbatim>\<open>AttributeError\<close>.
\<close>

theorem missing_current_branch_raises:
  "create_commit t1 ''x'' ghost_repo =
     ((False, ''Error: Current branch '' @ sq @ ''ghost'' @ sq @ '' not found''), ghost_repo) \<and>
   get_commit_log ghost_repo = Some ''Error: Current branch not found'' \<and>
   create_branch 0 ''feature'' ghost_repo = Inl (KeyError ''ghost'') \<and>
   merge_branches t1 ''master'' ghost_repo = Inl AttributeError"
proof -
  have none: "dict_get (branches ghost_repo) (current_branch ghost_repo) = None"
    by (simp add: ghost_repo_def dict_get_def)
  have cb: "current_branch ghost_repo = ''ghost''"
    by (simp add: ghost_repo_def)
  have new: "\<not> dict_contains ''feature'' (branches ghost_repo)"
    by (simp add: ghost_repo_def dict_contains_def)
  have src: "dict_get (branches ghost_repo) ''master'' =
     Some \<lparr>name = ''master'', head = ''C0'', color = ''#2196f3''\<rparr>"
    by (simp add: ghost_repo_def dict_get_def)
  show ?thesis
    using create_commit_no_current [OF none, of t1 "''x''"] get_commit_log_no_current [OF none]
      create_branch_no_current [OF new none, of 0] merge_no_current [OF src none, of t1]
    by (simp add: cb)
qed

section \<open>Saving and loading\<close>

lemma save_has_no_head: "subscript (save_to_file r) ''head'' = Inl (KeyError ''head'')"
  by (simp add: save_to_file_def subscript_def dict_get_def)

lemma fresh_save_load:
  "load_from_file (\<lambda>k. 0) (save_to_file (GitRepository_init t0 0)) = Inl (KeyError ''head'')"
proof -
  have init: "GitRepository_init t0 0 =
     \<lparr>commits = [(''C0'', commit0)],
      branches = [(''master'', \<lparr>name = ''master'', head = ''C0'', color = ''#2196f3''\<rparr>)],
      current_branch = ''master''\<rparr>"
    by (simp add: GitRepository_init_eq GitCommit_init_def commit0_def generate_color_def
        colors_def)
  have branch: "GitBranch_from_dict 0
       (GitBranch_to_dict \<lparr>name = ''master'', head = ''C0'', color = ''#2196f3''\<rparr>) =
     Inr \<lparr>name = ''master'', head = ''C0'', color = ''#2196f3''\<rparr>"
    by (simp add: GitBranch_from_dict_def GitBranch_to_dict_def subscript_def dict_get_def
        as_str_def py_falsy_def GitBranch_init_def)
  show ?thesis
    unfolding init
    by (simp add: load_from_file_def save_to_file_def subscript_def items_def dict_get_def
        commit0_from_dict branch)
qed

text \<open>
  C1. The round trip the specification states does not hold of the code: \<^verbatim>\<open>save_to_file\<close>
  writes the keys \<^verbatim>\<open>commits\<close>, \<^verbatim>\<open>branches\<close> and \<^verbatim>\<open>current_branch\<close>, and
  \<^verbatim>\<open>load_from_file\<close> reads a fourth key, \<^verbatim>\<open>head\<close>, after them. Loading what was saved
  therefore raises, for every repository and whatever colours are drawn; for a new
  repository the exception is \<^verbatim>\<open>KeyError('head')\<close>.
\<close>

theorem load_after_save_raises:
  "(\<exists>e. load_from_file choice (save_to_file r) = Inl e) \<and>
   load_from_file (\<lambda>k. 0) (save_to_file (GitRepository_init t0 0)) = Inl (KeyError ''head'')"
proof -
  have "\<exists>e. load_from_file choice (save_to_file r) = Inl e"
    unfolding load_from_file_def
    by (simp add: save_has_no_head and_then_def split: sum.splits)
  then show ?thesis using fresh_save_load by blast
qed

section \<open>Operations on the example repository\<close>

lemma merged_repo_create_branch:
  "\<exists>res r1. create_branch 3 ''feature'' merged_repo = Inr (res, r1)"
proof -
  have "\<not> dict_contains ''feature'' (branches merged_repo)"
    by (simp add: merged_repo_def dict_contains_def)
  from create_branch_new [OF this merged_repo_current] show ?thesis
    by blast
qed

lemma merged_repo_merge: "\<exists>res r2. merge_branches t1 ''b'' merged_repo = Inr (res, r2)"
proof -
  from merge_commit_created [OF merged_repo_b merged_repo_current] show ?thesis
    by fastforce
qed

section \<open>The current branch is a branch\<close>

lemma GitRepository_init_current:
  "dict_contains (current_branch (GitRepository_init now pick))
     (branches (GitRepository_init now pick))"
  by (simp add: GitRepository_init_eq dict_contains_def)

lemma create_commit_current:
  "dict_contains (current_branch r) (branches r) \<Longrightarrow>
   dict_contains (current_branch (snd (create_commit now msg r)))
     (branches (snd (create_commit now msg r)))"
  by (auto simp: create_commit_def Let_def dict_contains_set split: option.splits)

lemma create_branch_current:
  "dict_contains (current_branch r) (branches r) \<Longrightarrow>
   create_branch pick nm r = Inr (res, r') \<Longrightarrow>
   dict_contains (current_branch r') (branches r')"
  by (auto simp: create_branch_def Let_def dict_contains_set split: if_splits option.splits)

lemma checkout_branch_current:
  "dict_contains (current_branch r) (branches r) \<Longrightarrow>
   dict_contains (current_branch (snd (checkout_branch nm r)))
     (branches (snd (checkout_branch nm r)))"
  by (simp add: checkout_branch_def)

lemma merge_branches_current:
  "dict_contains (current_branch r) (branches r) \<Longrightarrow>
   merge_branches now nm r = Inr (res, r') \<Longrightarrow>
   dict_contains (current_branch r') (branches r')"
  by (auto simp: merge_branches_def Let_def dict_contains_set split: if_splits option.splits)

lemma reachable_current: "reachable r \<Longrightarrow> dict_contains (current_branch r) (branches r)"
proof (induction rule: reachable.induct)
  case (init now pick)
  show ?case by (rule GitRepository_init_current)
next
  case (commit r now msg)
  then show ?case by (simp add: create_commit_current)
next
  case (branch r pick nm res r')
  then show ?case using create_branch_current by blast
next
  case (checkout r nm)
  then show ?case by (simp add: checkout_branch_current)
next
  case (merge r now nm res r')
  then show ?case using merge_branches_current by blast
qed

lemma load_from_file_current:
  assumes "load_from_file choice data = Inr r"
  shows "subscript data ''current_branch'' = Inr (JStr (current_branch r))"
proof -
  from assms obtain cb where cb: "subscript data ''current_branch'' = Inr cb"
    and s: "as_str cb = Some (current_branch r)"
    unfolding load_from_file_def
    by (auto simp: and_then_def split: sum.splits option.splits)
  from s have "cb = JStr (current_branch r)"
    by (cases cb) (simp_all add: as_str_def)
  with cb show ?thesis by simp
qed

text \<open>
  C3, as the code has it. In every state that \<^verbatim>\<open>create_commit\<close>, \<^verbatim>\<open>create_branch\<close>,
  \<^verbatim>\<open>checkout_branch\<close> and \<^verbatim>\<open>merge_branches\<close> build from a new repository, the current
  branch is a key of \<^verbatim>\<open>branches\<close>, and each of the four keeps this from any state that has
  it. \<^verbatim>\<open>load_from_file\<close> checks nothing: the current branch of the repository it returns
  is the string the document holds under \<^verbatim>\<open>current_branch\<close>.
\<close>

theorem current_branch_is_a_branch:
  "(reachable r \<longrightarrow> dict_contains (current_branch r) (branches r)) \<and>
   (dict_contains (current_branch r) (branches r) \<longrightarrow>
      dict_contains (current_branch (snd (create_commit now msg r)))
        (branches (snd (create_commit now msg r)))) \<and>
   (dict_contains (current_branch r) (branches r) \<and> create_branch pick nm r = Inr (res, rb) \<longrightarrow>
      dict_contains (current_branch rb) (branches rb)) \<and>
   (dict_contains (current_branch r) (branches r) \<longrightarrow>
      dict_contains (current_branch (snd (checkout_branch nm r)))
        (branches (snd (checkout_branch nm r)))) \<and>
   (dict_contains (current_branch r) (branches r) \<and> merge_branches now nm r = Inr (res', rm) \<longrightarrow>
      dict_contains (current_branch rm) (branches rm)) \<and>
   (load_from_file choice data = Inr r' \<longrightarrow>
      subscript data ''current_branch'' = Inr (JStr (current_branch r')))"
  using reachable_current create_commit_current create_branch_current checkout_branch_current
    merge_branches_current load_from_file_current
  by blast

theorem current_branch_is_a_branch_witness:
  "reachable merged_repo \<and> dict_contains (current_branch merged_repo) (branches merged_repo) \<and>
   dict_contains (current_branch (snd (create_commit t1 ''fix'' merged_repo)))
     (branches (snd (create_commit t1 ''fix'' merged_repo))) \<and>
   (\<exists>res r1. create_branch 3 ''feature'' merged_repo = Inr (res, r1) \<and>
      dict_contains (current_branch r1) (branches r1)) \<and>
   dict_contains (current_branch (snd (checkout_branch ''b'' merged_repo)))
     (branches (snd (checkout_branch ''b'' merged_repo))) \<and>
   (\<exists>res r2. merge_branches t1 ''b'' merged_repo = Inr (res, r2) \<and>
      dict_contains (current_branch r2) (branches r2)) \<and>
   load_from_file (\<lambda>k. 0) ghost_document = Inr ghost_repo \<and>
   subscript ghost_document ''current_branch'' = Inr (JStr ''ghost'')"
proof -
  obtain res r1 where br: "create_branch 3 ''feature'' merged_repo = Inr (res, r1)"
    using merged_repo_create_branch by blast
  obtain res' r2 where me: "merge_branches t1 ''b'' merged_repo = Inr (res', r2)"
    using merged_repo_merge by blast
  have cb: "current_branch ghost_repo = ''ghost''"
    by (simp add: ghost_repo_def)
  note th = current_branch_is_a_branch
    [where r = merged_repo and now = t1 and msg = "''fix''" and rb = r1 and rm = r2
       and choice = "\<lambda>k. 0" and data = ghost_document and r' = ghost_repo]
  from th [of 3 "''feature''" res] th [of _ "''b''" _ res'] br me
    reachable_merged_repo load_ghost_document cb
  show ?thesis by auto
qed

text \<open>
  C3 as the specification states it, with \<^verbatim>\<open>load_from_file\<close> among the operations, fails:
  the document \<open>ghost_document\<close> loads, and the current branch of the repository
  returned, \<^verbatim>\<open>ghost\<close>, is not a key of its branches.
\<close>

theorem load_keeps_unknown_current_branch:
  "load_from_file (\<lambda>k. 0) ghost_document = Inr ghost_repo \<and>
   current_branch ghost_repo = ''ghost'' \<and>
   \<not> dict_contains (current_branch ghost_repo) (branches ghost_repo)"
proof -
  have "\<not> dict_contains (current_branch ghost_repo) (branches ghost_repo)"
    by (simp add: ghost_repo_def dict_contains_def)
  moreover have "current_branch ghost_repo = ''ghost''"
    by (simp add: ghost_repo_def)
  ultimately show ?thesis using load_ghost_document by blast
qed

section \<open>Branch heads are commits\<close>

lemma heads_in_commitsI:
  "(\<And>n b. (n, b) \<in> set (branches r) \<Longrightarrow> dict_contains (head b) (commits r)) \<Longrightarrow>
   heads_in_commits r"
  by (auto simp: heads_in_commits_def)

lemma heads_in_commitsD:
  "heads_in_commits r \<Longrightarrow> (n, b) \<in> set (branches r) \<Longrightarrow> dict_contains (head b) (commits r)"
  by (auto simp: heads_in_commits_def)

lemma dict_get_in_set: "dict_get d k = Some v \<Longrightarrow> (k, v) \<in> set d"
  by (simp add: dict_get_def map_of_SomeD)

lemma GitRepository_init_heads: "heads_in_commits (GitRepository_init now pick)"
  by (simp add: heads_in_commits_def GitRepository_init_eq dict_contains_def)

lemma create_commit_heads:
  assumes "heads_in_commits r"
  shows "heads_in_commits (snd (create_commit now msg r))"
proof (cases "dict_get (branches r) (current_branch r)")
  case None
  with assms show ?thesis by (simp add: create_commit_def)
next
  case (Some cur)
  show ?thesis
  proof (rule heads_in_commitsI)
    fix n b
    assume "(n, b) \<in> set (branches (snd (create_commit now msg r)))"
    with Some have "(n, b) \<in> set (branches r) \<or>
        b = cur\<lparr>head := ''C'' @ str_nat (dict_len (commits r))\<rparr>"
      by (auto simp: create_commit_def Let_def dest: dict_set_values)
    with assms Some show "dict_contains (head b) (commits (snd (create_commit now msg r)))"
      by (auto simp: create_commit_def Let_def dict_contains_set dest: heads_in_commitsD)
  qed
qed

lemma create_branch_heads:
  assumes "heads_in_commits r" and "create_branch pick nm r = Inr (res, r')"
  shows "heads_in_commits r'"
proof (cases "dict_contains nm (branches r)")
  case True
  with assms show ?thesis by (simp add: create_branch_def)
next
  case False
  with assms(2) obtain cur where cur: "dict_get (branches r) (current_branch r) = Some cur"
    and r': "r' = r\<lparr>branches := dict_set (branches r) nm
                      (GitBranch_init nm (head cur) None pick)\<rparr>"
    by (auto simp: create_branch_def Let_def split: option.splits)
  from cur assms(1) have "dict_contains (head cur) (commits r)"
    by (blast dest: dict_get_in_set heads_in_commitsD)
  with assms(1) show ?thesis
    unfolding r'
    by (auto intro!: heads_in_commitsI dest!: dict_set_values
        simp: GitBranch_init_def dest: heads_in_commitsD)
qed

lemma checkout_branch_heads:
  "heads_in_commits r \<Longrightarrow> heads_in_commits (snd (checkout_branch nm r))"
  by (simp add: checkout_branch_def heads_in_commits_def)

lemma merge_branches_heads:
  assumes "heads_in_commits r" and "merge_branches now nm r = Inr (res, r')"
  shows "heads_in_commits r'"
proof (cases "r' = r")
  case True
  with assms show ?thesis by simp
next
  case False
  with assms(2) obtain tb cid c where r': "r' = r\<lparr>commits := dict_set (commits r) cid c,
       branches := dict_set (branches r) (current_branch r) (tb\<lparr>head := cid\<rparr>)\<rparr>"
    by (auto simp: merge_branches_def Let_def split: option.splits if_splits)
  from assms(1) show ?thesis
    unfolding r'
    by (auto intro!: heads_in_commitsI dest!: dict_set_values
        simp: dict_contains_set dest: heads_in_commitsD)
qed

lemma reachable_heads: "reachable r \<Longrightarrow> heads_in_commits r"
proof (induction rule: reachable.induct)
  case (init now pick)
  show ?case by (rule GitRepository_init_heads)
next
  case (commit r now msg)
  then show ?case by (simp add: create_commit_heads)
next
  case (branch r pick nm res r')
  then show ?case using create_branch_heads by blast
next
  case (checkout r nm)
  then show ?case by (simp add: checkout_branch_heads)
next
  case (merge r now nm res r')
  then show ?case using merge_branches_heads by blast
qed

text \<open>
  C9. In every state that \<^verbatim>\<open>create_commit\<close>, \<^verbatim>\<open>create_branch\<close>, \<^verbatim>\<open>checkout_branch\<close> and
  \<^verbatim>\<open>merge_branches\<close> build from a new repository, the head of every branch is a key of
  \<^verbatim>\<open>commits\<close>; and each of the four keeps this from any state that has it: a head is set to
  the current branch's head, which is a key already, or to the id under which a commit was
  put in the same call.
\<close>

theorem reachable_heads_in_commits:
  "(reachable r \<longrightarrow> heads_in_commits r) \<and>
   (heads_in_commits r \<longrightarrow> heads_in_commits (snd (create_commit now msg r))) \<and>
   (heads_in_commits r \<and> create_branch pick nm r = Inr (res, r') \<longrightarrow> heads_in_commits r') \<and>
   (heads_in_commits r \<longrightarrow> heads_in_commits (snd (checkout_branch nm r))) \<and>
   (heads_in_commits r \<and> merge_branches now nm r = Inr (res', r'') \<longrightarrow> heads_in_commits r'')"
  using reachable_heads create_commit_heads create_branch_heads checkout_branch_heads
    merge_branches_heads by blast

theorem reachable_heads_in_commits_witness:
  "reachable merged_repo \<and> heads_in_commits merged_repo \<and>
   map (\<lambda>(n, b). (n, head b)) (branches merged_repo) = [(''master'', ''C2''), (''b'', ''C1'')] \<and>
   dict_contains ''C2'' (commits merged_repo) \<and> dict_contains ''C1'' (commits merged_repo) \<and>
   heads_in_commits (snd (create_commit t1 ''fix'' merged_repo)) \<and>
   (\<exists>res r1. create_branch 3 ''feature'' merged_repo = Inr (res, r1) \<and> heads_in_commits r1) \<and>
   heads_in_commits (snd (checkout_branch ''b'' merged_repo)) \<and>
   (\<exists>res r2. merge_branches t1 ''b'' merged_repo = Inr (res, r2) \<and> heads_in_commits r2)"
proof -
  obtain res r1 where br: "create_branch 3 ''feature'' merged_repo = Inr (res, r1)"
    using merged_repo_create_branch by blast
  obtain res' r2 where me: "merge_branches t1 ''b'' merged_repo = Inr (res', r2)"
    using merged_repo_merge by blast
  note th = reachable_heads_in_commits
    [where r = merged_repo and now = t1 and msg = "''fix''" and r' = r1 and r'' = r2]
  from th [of 3 "''feature''" res] th [of _ "''b''" _ res'] br me reachable_merged_repo
  have "heads_in_commits merged_repo"
    and "heads_in_commits (snd (create_commit t1 ''fix'' merged_repo))"
    and "heads_in_commits r1"
    and "heads_in_commits (snd (checkout_branch ''b'' merged_repo))"
    and "heads_in_commits r2"
    by blast+
  with br me reachable_merged_repo show ?thesis
    by (auto simp: merged_repo_def dict_contains_def)
qed

section \<open>Commit ids\<close>

lemma digit_val_digits:
  "digit_val (''0123456789'' ! 0) = 0" "digit_val (''0123456789'' ! 1) = 1"
  "digit_val (''0123456789'' ! 2) = 2" "digit_val (''0123456789'' ! 3) = 3"
  "digit_val (''0123456789'' ! 4) = 4" "digit_val (''0123456789'' ! 5) = 5"
  "digit_val (''0123456789'' ! 6) = 6" "digit_val (''0123456789'' ! 7) = 7"
  "digit_val (''0123456789'' ! 8) = 8" "digit_val (''0123456789'' ! 9) = 9"
  by (simp_all add: digit_val_def)

lemma digit_val_digit_char: "digit_val (digit_char n) = n mod 10"
proof -
  define d where "d = n mod 10"
  have "d < 10" by (simp add: d_def)
  then consider "d = 0" | "d = 1" | "d = 2" | "d = 3" | "d = 4" | "d = 5" | "d = 6"
    | "d = 7" | "d = 8" | "d = 9"
    by atomize_elim arith
  then have "digit_val (''0123456789'' ! d) = d"
    by cases (simp_all only: digit_val_digits)
  then show ?thesis
    by (simp add: digit_char_def d_def)
qed

lemma foldl_str_nat: "foldl (\<lambda>a c. 10 * a + digit_val c) 0 (str_nat n) = n"
proof (induction n rule: str_nat.induct)
  case (1 n)
  show ?case
  proof (cases "n < 10")
    case True
    then show ?thesis
      by (subst str_nat.simps) (simp add: digit_val_digit_char)
  next
    case False
    with 1 show ?thesis
      by (subst str_nat.simps) (simp add: digit_val_digit_char)
  qed
qed

lemma str_nat_inj: "str_nat m = str_nat n \<Longrightarrow> m = n"
  by (metis foldl_str_nat)

lemma str_nat_0: "str_nat 0 = ''0''"
  by (simp add: str_nat.simps digit_char_def)


section \<open>Commits are numbered in the order they were made\<close>

lemma numbered_key: "numbered cs \<Longrightarrow> i < length cs \<Longrightarrow> fst (cs ! i) = ''C'' @ str_nat i"
  by (simp add: numbered_def)

lemma numbered_keys: "numbered cs \<Longrightarrow> map fst cs = map (\<lambda>i. ''C'' @ str_nat i) [0..<length cs]"
  by (rule nth_equalityI) (simp_all add: numbered_key)

lemma numbered_distinct: "numbered cs \<Longrightarrow> distinct (map fst cs)"
  by (simp add: numbered_keys distinct_map inj_on_def str_nat_inj)

lemma dict_contains_iff: "dict_contains k d \<longleftrightarrow> k \<in> set (map fst d)"
  by (simp add: dict_contains_def map_of_eq_None_iff)

lemma numbered_contains:
  "numbered cs \<Longrightarrow> dict_contains k cs \<longleftrightarrow> (\<exists>j < length cs. k = ''C'' @ str_nat j)"
  by (auto simp: dict_contains_iff numbered_keys)

lemma numbered_next_is_new:
  "numbered cs \<Longrightarrow> \<not> dict_contains (''C'' @ str_nat (length cs)) cs"
  by (auto simp: numbered_contains dest: str_nat_inj)

lemma numbered_get:
  assumes "numbered cs" and "i < length cs"
  shows "dict_get cs (''C'' @ str_nat i) = Some (snd (cs ! i))"
proof -
  have "(fst (cs ! i), snd (cs ! i)) \<in> set cs"
    using assms(2) by simp
  then have "map_of cs (fst (cs ! i)) = Some (snd (cs ! i))"
    using numbered_distinct [OF assms(1)] by (rule map_of_is_SomeI [rotated])
  then show ?thesis
    using assms by (simp add: dict_get_def numbered_key)
qed

lemma dict_set_new: "\<not> dict_contains k d \<Longrightarrow> dict_set d k v = d @ [(k, v)]"
  unfolding dict_set_def dict_contains_iff by (induction d) auto

lemma numbered_append:
  assumes "numbered cs" and "\<And>p. parent c = Some p \<Longrightarrow> dict_contains p cs"
  shows "numbered (dict_set cs (''C'' @ str_nat (length cs)) c)"
proof -
  have eq: "dict_set cs (''C'' @ str_nat (length cs)) c = cs @ [(''C'' @ str_nat (length cs), c)]"
    using dict_set_new [OF numbered_next_is_new [OF assms(1)]] by simp
  show ?thesis
    unfolding eq numbered_def
  proof (intro allI impI)
    fix i
    assume i: "i < length (cs @ [(''C'' @ str_nat (length cs), c)])"
    show "fst ((cs @ [(''C'' @ str_nat (length cs), c)]) ! i) = ''C'' @ str_nat i \<and>
          (\<forall>p. parent (snd ((cs @ [(''C'' @ str_nat (length cs), c)]) ! i)) = Some p \<longrightarrow>
               (\<exists>j<i. p = ''C'' @ str_nat j))"
    proof (cases "i < length cs")
      case True
      with assms(1) show ?thesis
        by (simp add: nth_append numbered_def)
    next
      case False
      with i have "i = length cs" by simp
      with assms show ?thesis
        by (auto simp: nth_append numbered_contains)
    qed
  qed
qed

lemma numbered_init: "numbered (commits (GitRepository_init now pick))"
  by (simp add: numbered_def GitRepository_init_eq GitCommit_init_def str_nat_0)

lemma numbered_walk:
  assumes "numbered cs" and "i < length cs"
  shows "\<exists>ks. parent_walk cs (Some (''C'' @ str_nat i)) ks \<and> ks \<noteq> [] \<and> parent (last ks) = None"
  using assms(2)
proof (induction i rule: less_induct)
  case (less i)
  have get: "dict_get cs (''C'' @ str_nat i) = Some (snd (cs ! i))"
    using assms(1) less.prems by (rule numbered_get)
  show ?case
  proof (cases "parent (snd (cs ! i))")
    case None
    have "parent_walk cs (parent (snd (cs ! i))) []"
      unfolding None by (rule parent_walk.no_parent)
    with get have "parent_walk cs (Some (''C'' @ str_nat i)) [snd (cs ! i)]"
      by (intro parent_walk.follow) simp_all
    with None show ?thesis by force
  next
    case (Some p)
    with assms(1) less.prems obtain j where j: "j < i" and p: "p = ''C'' @ str_nat j"
      by (auto simp: numbered_def)
    from less.IH [OF j] j less.prems obtain ks where
      ks: "parent_walk cs (Some (''C'' @ str_nat j)) ks" "ks \<noteq> []" "parent (last ks) = None"
      by auto
    from ks(1) get have "parent_walk cs (Some (''C'' @ str_nat i)) (snd (cs ! i) # ks)"
      by (intro parent_walk.follow) (simp_all add: Some p)
    with ks(2,3) show ?thesis by force
  qed
qed

lemma create_commit_numbered:
  assumes "numbered (commits r)" and "heads_in_commits r"
  shows "numbered (commits (snd (create_commit now msg r)))"
proof (cases "dict_get (branches r) (current_branch r)")
  case None
  with assms(1) show ?thesis by (simp add: create_commit_def)
next
  case (Some cur)
  with assms(2) have "dict_contains (head cur) (commits r)"
    by (blast dest: dict_get_in_set heads_in_commitsD)
  then have "numbered (dict_set (commits r) (''C'' @ str_nat (length (commits r)))
      (GitCommit_init (''C'' @ str_nat (length (commits r))) msg (Some (head cur)) None now))"
    by (intro numbered_append assms(1)) (simp add: GitCommit_init_def)
  with Some show ?thesis
    by (simp add: create_commit_def Let_def dict_len_def)
qed

lemma create_branch_commits: "create_branch pick nm r = Inr (res, r') \<Longrightarrow> commits r' = commits r"
  by (auto simp: create_branch_def Let_def split: if_splits option.splits)

lemma checkout_branch_commits: "commits (snd (checkout_branch nm r)) = commits r"
  by (simp add: checkout_branch_def)

lemma merge_branches_numbered:
  assumes "numbered (commits r)" and "heads_in_commits r"
    and "merge_branches now nm r = Inr (res, r')"
  shows "numbered (commits r')"
proof -
  consider (same) "r' = r"
    | (new) tb sb where "dict_get (branches r) nm = Some sb"
        "dict_get (branches r) (current_branch r) = Some tb" "head tb \<noteq> head sb"
    using assms(3) by (auto simp: merge_branches_def Let_def split: option.splits if_splits)
  then show ?thesis
  proof cases
    case same
    with assms(1) show ?thesis by simp
  next
    case new
    from merge_commit_created [OF new, of now] assms(3)
    have r': "commits r' = dict_set (commits r) (''C'' @ str_nat (length (commits r)))
       \<lparr>commit_id = ''C'' @ str_nat (length (commits r)),
        message = ''Merge branch '' @ sq @ nm @ sq @ '' into '' @ current_branch r,
        parent = Some (head tb), second_parent = Some (head sb), timestamp = now\<rparr>"
      by (auto simp: dict_len_def)
    from new(2) assms(2) have "dict_contains (head tb) (commits r)"
      by (blast dest: dict_get_in_set heads_in_commitsD)
    then show ?thesis
      unfolding r' by (intro numbered_append assms(1)) simp
  qed
qed

lemma reachable_numbered: "reachable r \<Longrightarrow> numbered (commits r)"
proof (induction rule: reachable.induct)
  case (init now pick)
  show ?case by (rule numbered_init)
next
  case (commit r now msg)
  then show ?case by (simp add: create_commit_numbered reachable_heads)
next
  case (branch r pick nm res r')
  then show ?case by (simp add: create_branch_commits)
next
  case (checkout r nm)
  then show ?case by (simp add: checkout_branch_commits)
next
  case (merge r now nm res r')
  then show ?case using merge_branches_numbered reachable_heads by blast
qed

section \<open>The log\<close>

lemma log_loop_None [simp]: "log_loop cs None acc = Some acc"
  by (subst log_loop.simps) simp

lemma log_loop_empty [simp]: "log_loop cs (Some []) acc = Some acc"
  by (subst log_loop.simps) simp

lemma log_loop_missing: "dict_get cs c = None \<Longrightarrow> log_loop cs (Some c) acc = Some acc"
  by (subst log_loop.simps) simp

lemma log_loop_step:
  "c \<noteq> [] \<Longrightarrow> dict_get cs c = Some k \<Longrightarrow>
   log_loop cs (Some c) acc = log_loop cs (parent k) (acc @ log_entry k)"
  by (subst log_loop.simps) simp

text \<open>The loop returns the records of the first-parent chain, after what it was given.\<close>

lemma log_loop_parent_walk:
  "parent_walk cs cur ks \<Longrightarrow> log_loop cs cur acc = Some (acc @ concat (map log_entry ks))"
proof (induction arbitrary: acc rule: parent_walk.induct)
  case (no_parent cs)
  show ?case by simp
next
  case (empty_id cs)
  show ?case by simp
next
  case (missing c cs)
  then show ?case by (simp add: log_loop_missing)
next
  case (follow c cs k ks)
  then show ?case by (simp add: log_loop_step)
qed

lemma log_entry_not_Nil: "log_entry k \<noteq> []"
  by (simp add: log_entry_def)

lemma get_commit_log_parent_walk:
  assumes "dict_get (branches r) (current_branch r) = Some b"
    and "parent_walk (commits r) (Some (head b)) ks"
  shows "get_commit_log r = Some (log_text ks)"
proof -
  have "log_loop (commits r) (Some (head b)) [] = Some (concat (map log_entry ks))"
    using log_loop_parent_walk [OF assms(2), of "[]"] by simp
  moreover have "concat (map log_entry ks) = [] \<longleftrightarrow> ks = []"
    by (cases ks) (simp_all add: log_entry_not_Nil)
  ultimately show ?thesis
    using assms(1) by (simp add: get_commit_log_def log_text_def)
qed

text \<open>Every commit of the chain is reached from the start through \<^verbatim>\<open>parent\<close> links.\<close>

lemma parent_walk_Nil_iff: "parent_walk cs None ks \<Longrightarrow> ks = []"
  by (cases rule: parent_walk.cases) auto

lemma parent_walk_reached:
  "parent_walk cs cur ks \<Longrightarrow> cur = Some c \<Longrightarrow> k \<in> set ks \<Longrightarrow>
   \<exists>c'. (c, c') \<in> (parent_link cs)\<^sup>* \<and> dict_get cs c' = Some k"
proof (induction arbitrary: c rule: parent_walk.induct)
  case (follow c0 cs k0 ks)
  show ?case
  proof (cases "k = k0")
    case True
    with follow show ?thesis by auto
  next
    case False
    with follow.prems have k: "k \<in> set ks" by simp
    with follow.hyps(3) obtain p where p: "parent k0 = Some p"
      by (cases "parent k0") (auto dest: parent_walk_Nil_iff)
    from follow.IH [OF p k] obtain c' where
      rest: "(p, c') \<in> (parent_link cs)\<^sup>*" and c': "dict_get cs c' = Some k"
      by blast
    from follow.hyps(2) p have "(c0, p) \<in> parent_link cs"
      by (auto simp: parent_link_def)
    then have "(c0, c') \<in> (parent_link cs)\<^sup>*"
      using rest by (rule converse_rtrancl_into_rtrancl)
    with c' follow.prems show ?thesis by auto
  qed
qed simp_all

text \<open>The loop returns only when there is a first-parent chain: where following the
  \<^verbatim>\<open>parent\<close> links never comes to an end, it runs for ever.\<close>

lemma log_loop_returns_parent_walk:
  assumes "log_loop cs cur acc = Some y"
  shows "\<exists>ks. parent_walk cs cur ks"
proof (rule log_loop.raw_induct
    [where P = "\<lambda>cs cur acc y. \<exists>ks. parent_walk cs cur ks", OF _ assms])
  fix loop cs cur acc y
  assume IH: "\<And>cs cur acc y. loop cs cur acc = Some y \<Longrightarrow> \<exists>ks. parent_walk cs cur ks"
    and body: "(case cur of
        None \<Rightarrow> Some acc
      | Some c \<Rightarrow>
          if c = [] then Some acc
          else (case dict_get cs c of
                  None \<Rightarrow> Some acc
                | Some commit \<Rightarrow> loop cs (parent commit) (acc @ log_entry commit))) = Some y"
  show "\<exists>ks. parent_walk cs cur ks"
  proof (cases cur)
    case None
    then show ?thesis by (auto intro: parent_walk.no_parent)
  next
    case (Some c)
    show ?thesis
    proof (cases "c = []")
      case True
      with Some show ?thesis by (auto intro: parent_walk.empty_id)
    next
      case False
      show ?thesis
      proof (cases "dict_get cs c")
        case None
        with Some False show ?thesis by (auto intro: parent_walk.missing)
      next
        case (Some k)
        with body \<open>cur = Some c\<close> False
        have "loop cs (parent k) (acc @ log_entry k) = Some y"
          by simp
        from IH [OF this] obtain ks where "parent_walk cs (parent k) ks"
          by blast
        with Some False have "parent_walk cs (Some c) (k # ks)"
          by (intro parent_walk.follow)
        with \<open>cur = Some c\<close> show ?thesis by blast
      qed
    qed
  qed
qed

lemma get_commit_log_no_parent_walk:
  assumes "dict_get (branches r) (current_branch r) = Some b"
    and "\<nexists>ks. parent_walk (commits r) (Some (head b)) ks"
  shows "get_commit_log r = None"
proof -
  have "log_loop (commits r) (Some (head b)) [] = None"
    using assms(2) log_loop_returns_parent_walk by (cases "log_loop (commits r) (Some (head b)) []") auto
  with assms(1) show ?thesis
    by (simp add: get_commit_log_def)
qed

text \<open>In a reachable state the chain from the current branch's head ends at a commit
  with no parent, and the log holds its records.\<close>

lemma reachable_first_parent_chain:
  assumes "reachable r"
  shows "\<exists>b ks. dict_get (branches r) (current_branch r) = Some b \<and>
           parent_walk (commits r) (Some (head b)) ks \<and> ks \<noteq> [] \<and> parent (last ks) = None \<and>
           get_commit_log r = Some (log_text ks)"
proof -
  from reachable_current [OF assms] obtain b where
    b: "dict_get (branches r) (current_branch r) = Some b"
    by (auto simp: dict_contains_get)
  have num: "numbered (commits r)"
    using assms by (rule reachable_numbered)
  from b reachable_heads [OF assms] have "dict_contains (head b) (commits r)"
    by (blast dest: dict_get_in_set heads_in_commitsD)
  with num obtain j where "j < length (commits r)" and "head b = ''C'' @ str_nat j"
    by (auto simp: numbered_contains)
  with numbered_walk [OF num, of j] obtain ks where
    ks: "parent_walk (commits r) (Some (head b)) ks" "ks \<noteq> []" "parent (last ks) = None"
    by auto
  from get_commit_log_parent_walk [OF b ks(1)] b ks show ?thesis
    by blast
qed

text \<open>
  C7, as the code has it. In every state whose current branch is a key of \<^verbatim>\<open>branches\<close>
  and in which the first-parent chain from the current branch's head comes to an end (at a
  commit with no parent, or at an id that is empty or is not a key of \<^verbatim>\<open>commits\<close>),
  \<^verbatim>\<open>get_commit_log\<close> returns the records (id, message, formatted timestamp) of the commits
  of that chain, in order, or \<^verbatim>\<open>No commits yet\<close> when the chain is empty. Every commit of
  the chain is reached from the head through \<^verbatim>\<open>parent\<close> links alone, so a commit that only
  \<^verbatim>\<open>second_parent\<close> links reach is not in the log. In every state that the in-memory
  operations build from a new repository there is such a chain, and it ends at a commit
  with no parent. In a state whose current branch is a key of \<^verbatim>\<open>branches\<close> and in which
  following the parent links from the head never comes to such an end, \<^verbatim>\<open>get_commit_log\<close>
  does not return. The function assigns nothing: the repository is the same afterwards.
\<close>

theorem get_commit_log_first_parent:
  "(dict_get (branches r) (current_branch r) = Some b \<and>
    parent_walk (commits r) (Some (head b)) ks \<longrightarrow>
      get_commit_log r = Some (log_text ks) \<and>
      (\<forall>k \<in> set ks. \<exists>c. (head b, c) \<in> (parent_link (commits r))\<^sup>* \<and>
                           dict_get (commits r) c = Some k)) \<and>
   (reachable r' \<longrightarrow>
      (\<exists>b' ks'. dict_get (branches r') (current_branch r') = Some b' \<and>
         parent_walk (commits r') (Some (head b')) ks' \<and> ks' \<noteq> [] \<and>
         parent (last ks') = None \<and> get_commit_log r' = Some (log_text ks'))) \<and>
   (dict_get (branches r'') (current_branch r'') = Some b'' \<and>
    (\<nexists>ks''. parent_walk (commits r'') (Some (head b'')) ks'') \<longrightarrow>
      get_commit_log r'' = None)"
proof (intro conjI impI)
  assume a: "dict_get (branches r) (current_branch r) = Some b \<and>
    parent_walk (commits r) (Some (head b)) ks"
  then show "get_commit_log r = Some (log_text ks)"
    by (simp add: get_commit_log_parent_walk)
  from a show "\<forall>k \<in> set ks. \<exists>c. (head b, c) \<in> (parent_link (commits r))\<^sup>* \<and>
                           dict_get (commits r) c = Some k"
    using parent_walk_reached by blast
next
  assume "reachable r'"
  then show "\<exists>b' ks'. dict_get (branches r') (current_branch r') = Some b' \<and>
         parent_walk (commits r') (Some (head b')) ks' \<and> ks' \<noteq> [] \<and>
         parent (last ks') = None \<and> get_commit_log r' = Some (log_text ks')"
    by (rule reachable_first_parent_chain)
next
  assume "dict_get (branches r'') (current_branch r'') = Some b'' \<and>
    (\<nexists>ks''. parent_walk (commits r'') (Some (head b'')) ks'')"
  then show "get_commit_log r'' = None"
    using get_commit_log_no_parent_walk by blast
qed

lemma strftime_examples:
  "strftime t0 = ''2024-05-17 09:30:00''" "strftime t2 = ''2024-05-17 09:32:00''"
proof -
  have "str_nat 2024 = ''2024''"
    by (simp add: str_nat.simps digit_char_def)
  then show "strftime t0 = ''2024-05-17 09:30:00''" "strftime t2 = ''2024-05-17 09:32:00''"
    by (simp_all add: strftime_def t0_def t2_def zpad_examples)
qed

text \<open>A run of the loop that starts at \<^verbatim>\<open>C0\<close> in \<open>cyclic_repo\<close> never returns.\<close>

lemma cyclic_loop_diverges: "log_loop (commits cyclic_repo) (Some ''C0'') acc = None"
proof (rule ccontr)
  assume "log_loop (commits cyclic_repo) (Some ''C0'') acc \<noteq> None"
  then obtain y where y: "log_loop (commits cyclic_repo) (Some ''C0'') acc = Some y"
    by auto
  have "commits cyclic_repo = commits cyclic_repo \<longrightarrow> Some ''C0'' \<noteq> Some ''C0''"
  proof (rule log_loop.raw_induct
      [where P = "\<lambda>cs cur acc' y'. cs = commits cyclic_repo \<longrightarrow> cur \<noteq> Some ''C0''", OF _ y])
    fix loop cs cur acc' y'
    assume IH: "\<And>cs cur acc' y'. loop cs cur acc' = Some y' \<Longrightarrow>
        cs = commits cyclic_repo \<longrightarrow> cur \<noteq> Some ''C0''"
      and body: "(case cur of
          None \<Rightarrow> Some acc'
        | Some c \<Rightarrow>
            if c = [] then Some acc'
            else (case dict_get cs c of
                    None \<Rightarrow> Some acc'
                  | Some commit \<Rightarrow> loop cs (parent commit) (acc' @ log_entry commit))) = Some y'"
    show "cs = commits cyclic_repo \<longrightarrow> cur \<noteq> Some ''C0''"
    proof (intro impI notI)
      assume cs: "cs = commits cyclic_repo" and cur: "cur = Some ''C0''"
      have get: "dict_get (commits cyclic_repo) ''C0'' = Some (commit0\<lparr>parent := Some ''C0''\<rparr>)"
        by (simp add: cyclic_repo_def dict_get_def)
      from body have "loop (commits cyclic_repo) (Some ''C0'') (acc' @
          log_entry (commit0\<lparr>parent := Some ''C0''\<rparr>)) = Some y'"
        by (simp add: cs cur get)
      from IH [OF this] show False by simp
    qed
  qed
  then show False by simp
qed

lemma cyclic_repo_current:
  "dict_get (branches cyclic_repo) (current_branch cyclic_repo) =
     Some \<lparr>name = ''master'', head = ''C0'', color = ''#2196f3''\<rparr>"
  by (simp add: cyclic_repo_def dict_get_def)

lemma cyclic_repo_no_parent_walk: "\<nexists>ks. parent_walk (commits cyclic_repo) (Some ''C0'') ks"
proof
  assume "\<exists>ks. parent_walk (commits cyclic_repo) (Some ''C0'') ks"
  then obtain ks where "parent_walk (commits cyclic_repo) (Some ''C0'') ks"
    by blast
  from log_loop_parent_walk [OF this, of "[]"] show False
    by (simp add: cyclic_loop_diverges)
qed

theorem get_commit_log_first_parent_witness:
  "merge_scenario = Inr merged_repo \<and> reachable merged_repo \<and>
   dict_get (branches merged_repo) (current_branch merged_repo) =
     Some \<lparr>name = ''master'', head = ''C2'', color = ''#2196f3''\<rparr> \<and>
   parent_walk (commits merged_repo) (Some ''C2'') [commit2, commit0] \<and>
   dict_get (commits merged_repo) ''C1'' = Some commit1 \<and>
   commit1 \<notin> set [commit2, commit0] \<and>
   get_commit_log merged_repo =
     Some (py_join [CHR 0x0A]
       [''Commit: C2'', ''Message: Merge branch '' @ sq @ ''b'' @ sq @ '' into master'',
        ''Date: 2024-05-17 09:32:00'', [],
        ''Commit: C0'', ''Message: Initial commit'', ''Date: 2024-05-17 09:30:00'', []]) \<and>
   dict_get (branches cyclic_repo) (current_branch cyclic_repo) =
     Some \<lparr>name = ''master'', head = ''C0'', color = ''#2196f3''\<rparr> \<and>
   (\<nexists>ks. parent_walk (commits cyclic_repo) (Some ''C0'') ks) \<and>
   get_commit_log cyclic_repo = None"
proof -
  have cur: "dict_get (branches merged_repo) (current_branch merged_repo) =
     Some \<lparr>name = ''master'', head = ''C2'', color = ''#2196f3''\<rparr>"
    by (simp add: merged_repo_def dict_get_def)
  have c2: "dict_get (commits merged_repo) ''C2'' = Some commit2"
    and c1: "dict_get (commits merged_repo) ''C1'' = Some commit1"
    and c0: "dict_get (commits merged_repo) ''C0'' = Some commit0"
    by (simp_all add: merged_repo_def dict_get_def)
  have p2: "parent commit2 = Some ''C0''" and p0: "parent commit0 = None"
    by (simp_all add: commit2_def commit0_def)
  have "parent_walk (commits merged_repo) (parent commit0) []"
    unfolding p0 by (rule parent_walk.no_parent)
  then have "parent_walk (commits merged_repo) (Some ''C0'') [commit0]"
    using c0 by (intro parent_walk.follow) simp_all
  then have "parent_walk (commits merged_repo) (parent commit2) [commit0]"
    by (simp add: p2)
  then have walk: "parent_walk (commits merged_repo) (Some ''C2'') [commit2, commit0]"
    using c2 by (intro parent_walk.follow) simp_all
  have walk': "parent_walk (commits merged_repo)
      (Some (head \<lparr>name = ''master'', head = ''C2'', color = ''#2196f3''\<rparr>)) [commit2, commit0]"
    using walk by simp
  have shown: "log_text [commit2, commit0] =
     py_join [CHR 0x0A]
       [''Commit: C2'', ''Message: Merge branch '' @ sq @ ''b'' @ sq @ '' into master'',
        ''Date: 2024-05-17 09:32:00'', [],
        ''Commit: C0'', ''Message: Initial commit'', ''Date: 2024-05-17 09:30:00'', []]"
    by (simp add: log_text_def log_entry_def commit2_def commit0_def strftime_examples)
  have notin: "commit1 \<notin> set [commit2, commit0]"
    by (simp add: commit0_def commit1_def commit2_def)
  have nowalk: "\<nexists>ks. parent_walk (commits cyclic_repo)
      (Some (head \<lparr>name = ''master'', head = ''C0'', color = ''#2196f3''\<rparr>)) ks"
    using cyclic_repo_no_parent_walk by simp
  note th = get_commit_log_first_parent [where r = merged_repo
      and b = "\<lparr>name = ''master'', head = ''C2'', color = ''#2196f3''\<rparr>"
      and ks = "[commit2, commit0]" and r' = merged_repo and r'' = cyclic_repo
      and b'' = "\<lparr>name = ''master'', head = ''C0'', color = ''#2196f3''\<rparr>"]
  from th cur walk' reachable_merged_repo
  have "get_commit_log merged_repo = Some (log_text [commit2, commit0])"
    by blast
  moreover from th cyclic_repo_current nowalk have "get_commit_log cyclic_repo = None"
    by blast
  ultimately show ?thesis
    using merge_scenario_result reachable_merged_repo cur walk c1 notin shown
      cyclic_repo_current cyclic_repo_no_parent_walk
    by simp
qed

text \<open>
  C7 as the specification states it, for every state whose current branch resolves,
  fails on a repository whose parent links cycle: in \<open>cyclic_repo\<close>, which
  \<^verbatim>\<open>load_from_file\<close> builds from \<open>cyclic_document\<close>, the current branch \<^verbatim>\<open>master\<close> is a
  branch, its head \<^verbatim>\<open>C0\<close> is a commit whose parent is \<^verbatim>\<open>C0\<close>, and \<^verbatim>\<open>get_commit_log\<close>
  never returns.
\<close>

theorem get_commit_log_never_returns:
  "load_from_file (\<lambda>k. 0) cyclic_document = Inr cyclic_repo \<and>
   dict_get (branches cyclic_repo) (current_branch cyclic_repo) =
     Some \<lparr>name = ''master'', head = ''C0'', color = ''#2196f3''\<rparr> \<and>
   map_option parent (dict_get (commits cyclic_repo) ''C0'') = Some (Some ''C0'') \<and>
   get_commit_log cyclic_repo = None"
proof -
  have cur: "dict_get (branches cyclic_repo) (current_branch cyclic_repo) =
     Some \<lparr>name = ''master'', head = ''C0'', color = ''#2196f3''\<rparr>"
    by (simp add: cyclic_repo_def dict_get_def)
  moreover have "map_option parent (dict_get (commits cyclic_repo) ''C0'') = Some (Some ''C0'')"
    by (simp add: cyclic_repo_def dict_get_def)
  moreover have "get_commit_log cyclic_repo = None"
    by (simp add: get_commit_log_def cur cyclic_loop_diverges)
  ultimately show ?thesis using load_cyclic_document by blast
qed

section \<open>The log ends when the parent links do not cycle\<close>









end
